theory Spec2Isabelle
  imports Complex_Main "HOL-Library.Log_Nat"
begin

section \<open>Python values used by the scoring service\<close>

text \<open>
  The service is Python: integers are unbounded (\<open>int\<close>), text is \<open>string\<close>, and every
  exception raised inside a \<open>try\<close> block is a value of \<open>py_error\<close> on the left of a sum.
  Scores produced by the learned models (scikit-learn, Keras) are inputs of the embedding:
  the libraries are not part of the repository.
\<close>

datatype py_error = ValueError | OverflowError | ZeroDivisionError | ModelError | NotFittedError

text \<open>Python's \<open>int(x)\<close> on a float truncates toward zero.\<close>

definition py_int :: "'a::floor_ceiling \<Rightarrow> int" where
  "py_int x = (if 0 \<le> x then \<lfloor>x\<rfloor> else \<lceil>x\<rceil>)"

text \<open>Python's \<open>xs[-n:]\<close>: the last \<open>n\<close> items, or all of them when there are fewer.\<close>

definition last_n :: "nat \<Rightarrow> 'a list \<Rightarrow> 'a list" where
  "last_n n xs = drop (length xs - n) xs"

text \<open>\<open>len(set(xs))\<close>: the number of distinct items.\<close>

definition count_distinct :: "'a list \<Rightarrow> nat" where
  "count_distinct xs = length (remdups xs)"

subsection \<open>Strings\<close>

fun startswith :: "string \<Rightarrow> string \<Rightarrow> bool" where
  "startswith s [] = True"
| "startswith [] (p # ps) = False"
| "startswith (c # cs) (p # ps) = (c = p \<and> startswith cs ps)"

text \<open>\<open>contains s sub\<close> is Python's \<open>sub in s\<close> on strings.\<close>

fun contains :: "string \<Rightarrow> string \<Rightarrow> bool" where
  "contains [] sub = (sub = [])"
| "contains (c # cs) sub = (startswith (c # cs) sub \<or> contains cs sub)"

text \<open>\<open>str.lower()\<close> on the ASCII letters (a \<open>char\<close> is a byte).\<close>

definition lower_char :: "char \<Rightarrow> char" where
  "lower_char c =
     (let n = (of_char c :: nat) in if 65 \<le> n \<and> n \<le> 90 then char_of (n + 32) else c)"

definition lower :: "string \<Rightarrow> string" where
  "lower s = map lower_char s"

text \<open>\<open>s.split('.')[0]\<close>: the text before the first dot.\<close>

definition split_dot_head :: "string \<Rightarrow> string" where
  "split_dot_head s = takeWhile (\<lambda>c. c \<noteq> CHR ''.'') s"

subsection \<open>Double-precision arithmetic of the score fusion\<close>

text \<open>
  The fusion multiplies integer scores by the float weights 0.30, 0.20, 0.25, 0.25 and adds
  the products left to right. Each operation rounds to the nearest binary64 value, ties to
  even; a float is modelled by the rational it denotes. Only the normal range is modelled
  (all values here lie between 0.2 and 100, or are 0).
\<close>

definition round_half_even :: "rat \<Rightarrow> int" where
  "round_half_even q =
     (let f = \<lfloor>q\<rfloor>; r = q - of_int f
      in if r < 1 / 2 then f else if 1 / 2 < r then f + 1 else if even f then f else f + 1)"

definition pow2 :: "int \<Rightarrow> rat" where
  "pow2 e = (if 0 \<le> e then 2 ^ nat e else 1 / 2 ^ nat (- e))"

text \<open>\<open>ilog2 x\<close> is the binary exponent of a positive \<open>x\<close>: the \<open>e\<close> with \<open>2^e \<le> x < 2^(e+1)\<close>.\<close>

definition ilog2 :: "rat \<Rightarrow> int" where
  "ilog2 x = (if 1 \<le> x then int (floorlog 2 (nat \<lfloor>x\<rfloor>)) - 1
              else - int (floorlog 2 (nat (\<lceil>1 / x\<rceil> - 1))))"

definition float_round :: "rat \<Rightarrow> rat" where
  "float_round x =
     (if x = 0 then 0
      else let e = ilog2 \<bar>x\<bar> - 52 in of_int (round_half_even (x / pow2 e)) * pow2 e)"

definition fmul :: "rat \<Rightarrow> rat \<Rightarrow> rat" where
  "fmul a b = float_round (a * b)"

definition fadd :: "rat \<Rightarrow> rat \<Rightarrow> rat" where
  "fadd a b = float_round (a + b)"

section \<open>Configuration (config/settings.py)\<close>

definition RATE_LIMIT_REQUESTS :: nat where "RATE_LIMIT_REQUESTS = 100"
definition RATE_LIMIT_PERIOD :: real where "RATE_LIMIT_PERIOD = 60"
definition MODELS_VERSION :: string where "MODELS_VERSION = ''v1.0.0''"
definition VERSION :: string where "VERSION = ''1.0.0''"

definition IP_WEIGHT :: rat where "IP_WEIGHT = float_round (30 / 100)"
definition DATETIME_WEIGHT :: rat where "DATETIME_WEIGHT = float_round (20 / 100)"
definition USERAGENT_WEIGHT :: rat where "USERAGENT_WEIGHT = float_round (25 / 100)"
definition GEOLOCATION_WEIGHT :: rat where "GEOLOCATION_WEIGHT = float_round (25 / 100)"

section \<open>Request and response models (api/models.py)\<close>

datatype login_status = Success | Failure

record location =
  country :: string
  city :: string
  latitude :: real
  longitude :: real

record login_history_item =
  h_ip :: string
  h_userAgent :: string
  h_timestamp :: int
  h_location :: location
  h_loginStatus :: login_status

text \<open>
  Of the optional fingerprint fields of \<open>CurrentSession\<close> only \<open>touchSupport\<close> is read by a
  rule; the others reach the learned models only, whose outputs are inputs here.
\<close>

record current_session =
  s_ip :: string
  s_userAgent :: string
  s_timestamp :: int
  s_touchSupport :: "bool option"

text \<open>
  The handler passes the detectors \<open>model_input\<close>: the session's fields, the location found
  for its address, and the login history.
\<close>

record model_input = current_session +
  mi_location :: location
  mi_login_history :: "login_history_item list"

record analyze_request =
  currentSession :: current_session
  loginHistory :: "login_history_item list"
  userId :: string

record risk_scores =
  ip :: int
  datetime :: int
  userAgent :: int
  geolocation :: int
  overall :: int

record response_meta =
  requestId :: string
  m_userId :: string
  m_timestamp :: int
  processingTime :: int
  modelsVersion :: string

record analyze_response =
  meta :: response_meta
  scores :: risk_scores

record health_response =
  status :: string
  models_loaded :: bool
  redis_connected :: bool
  mongodb_connected :: bool

section \<open>Input validation (api/validators.py)\<close>

definition validate_timestamp :: "int \<Rightarrow> bool" where
  "validate_timestamp timestamp =
     (let min_ts = 1577836800000; max_ts = 1893456000000
      in min_ts \<le> timestamp \<and> timestamp \<le> max_ts)"

text \<open>
  \<open>validate_ip_address\<close> asks the standard library's \<open>ipaddress.ip_address\<close>; the parser is
  a parameter. What the detectors read of a parsed address is \<open>is_private\<close> and its text.
\<close>

record ip_address_info =
  is_private :: bool
  ip_text :: string

definition validate_ip_address :: "(string \<Rightarrow> ip_address_info option) \<Rightarrow> string \<Rightarrow> bool" where
  "validate_ip_address ip_address a = (case ip_address a of Some _ \<Rightarrow> True | None \<Rightarrow> False)"

section \<open>Geolocation helpers (utils/geo_utils.py)\<close>

text \<open>
  Floats of the geographic code are modelled by the reals they approximate, and Python's
  \<open>float('inf')\<close> by its own constructor. \<open>math.atan2\<close> is written out by quadrant.
\<close>

datatype py_float = Fin real | PosInf

fun float_gt :: "py_float \<Rightarrow> real \<Rightarrow> bool" where
  "float_gt PosInf b = True"
| "float_gt (Fin a) b = (b < a)"

definition radians :: "real \<Rightarrow> real" where
  "radians d = d * pi / 180"

definition atan2 :: "real \<Rightarrow> real \<Rightarrow> real" where
  "atan2 y x =
     (if 0 < x then arctan (y / x)
      else if x < 0 then (if 0 \<le> y then arctan (y / x) + pi else arctan (y / x) - pi)
      else if 0 < y then pi / 2
      else if y < 0 then - (pi / 2)
      else 0)"

definition earth_radius_km :: real where "earth_radius_km = 6371"

definition haversine_distance :: "real \<Rightarrow> real \<Rightarrow> real \<Rightarrow> real \<Rightarrow> real" where
  "haversine_distance lat1 lon1 lat2 lon2 =
     (let la1 = radians lat1; lo1 = radians lon1; la2 = radians lat2; lo2 = radians lon2;
          dlat = la2 - la1;
          dlon = lo2 - lo1;
          a = (sin (dlat / 2))\<^sup>2 + cos la1 * cos la2 * (sin (dlon / 2))\<^sup>2;
          c = 2 * atan2 (sqrt a) (sqrt (1 - a))
      in earth_radius_km * c)"



section \<open>The four detectors (ml_models)\<close>

text \<open>
  \<open>BaseRiskModel\<close> keeps \<open>is_loaded\<close> and the model object; \<open>has_model\<close> stands for
  \<open>self.model is not None\<close>. Each detector's constructor also creates a
  \<open>StandardScaler\<close>; \<open>scaler_fitted\<close> says whether \<open>self.scaler.fit\<close> has run on it.
  Every \<open>predict_risk\<close> starts with the guard
  \<open>if not self.is_loaded and self.model is None: return 50\<close> and wraps the rest in
  \<open>try ... except Exception: return 50\<close>.
\<close>

record detector =
  is_loaded :: bool
  has_model :: bool
  scaler_fitted :: bool

text \<open>The constructor: no model, not loaded, a scaler that was never fitted.\<close>

definition new_detector :: detector where
  "new_detector = \<lparr>is_loaded = False, has_model = False, scaler_fitted = False\<rparr>"

text \<open>
  \<open>load_model\<close> (base_model.py): when the file is read, \<open>self.model\<close> is restored from it and
  \<open>is_loaded\<close> is set; the file holds the model object only (\<open>save_model\<close> dumps
  \<open>self.model\<close>), so the scaler stays as it was. When the file is missing or unreadable the
  call raises and the detector is unchanged.
\<close>

definition load_model :: "bool \<Rightarrow> detector \<Rightarrow> py_error + detector" where
  "load_model file_ok d =
     (if file_ok then Inr (d\<lparr>has_model := True, is_loaded := True\<rparr>) else Inl ModelError)"

text \<open>\<open>train\<close>: fits the scaler and sets \<open>self.model\<close>; \<open>is_loaded\<close> is not touched.\<close>

definition train :: "detector \<Rightarrow> detector" where
  "train d = d\<lparr>scaler_fitted := True, has_model := True\<rparr>"

text \<open>
  \<open>self.scaler.transform(features)\<close>, the first library call of every \<open>predict_risk\<close>: on a
  scaler that was never fitted scikit-learn raises \<open>NotFittedError\<close>.
\<close>

definition scaler_transform :: "detector \<Rightarrow> py_error + unit" where
  "scaler_transform d = (if scaler_fitted d then Inr () else Inl NotFittedError)"

definition model_missing :: "detector \<Rightarrow> bool" where
  "model_missing d = (\<not> is_loaded d \<and> \<not> has_model d)"

definition clamp100 :: "int \<Rightarrow> int" where
  "clamp100 x = max 0 (min 100 x)"

definition or_default :: "py_error + int \<Rightarrow> int" where
  "or_default r = (case r of Inl e \<Rightarrow> 50 | Inr score \<Rightarrow> score)"

subsection \<open>Network address (ml_models/ip_model.py)\<close>

text \<open>
  On the scaled features the one-class SVM yields \<open>(prediction, decision_score)\<close>, or raises.
  \<open>known_bad_ips\<close> is the detector's threat list.
\<close>

definition ip_base_score :: "(string \<Rightarrow> ip_address_info option) \<Rightarrow> string \<Rightarrow> int" where
  "ip_base_score ip_address a =
     (case ip_address a of
        None \<Rightarrow> 50
      | Some ip_obj \<Rightarrow>
          if \<not> is_private ip_obj then
            (if split_dot_head (ip_text ip_obj) \<in> set [''104'', ''172''] then 70 else 0)
          else 0)"

definition svm_risk_score :: "int \<Rightarrow> real \<Rightarrow> int" where
  "svm_risk_score prediction decision_score =
     (if prediction = 1 then max 0 (min 30 (py_int (30 - decision_score * 10)))
      else max 31 (min 100 (py_int (70 - decision_score * 20))))"

definition ip_recent_ips :: "int \<Rightarrow> login_history_item list \<Rightarrow> nat" where
  "ip_recent_ips current_time login_history =
     count_distinct (map h_ip (filter (\<lambda>item. current_time - h_timestamp item < 3600000)
                                      (last_n 10 login_history)))"

definition ip_predict_body ::
  "detector \<Rightarrow> (string \<Rightarrow> ip_address_info option) \<Rightarrow> string set \<Rightarrow> py_error + int \<times> real \<Rightarrow>
   'a current_session_scheme \<Rightarrow> login_history_item list \<Rightarrow> py_error + int" where
  "ip_predict_body d ip_address known_bad_ips svm current_session login_history =
     (case scaler_transform d of
        Inl e \<Rightarrow> Inl e
      | Inr features_scaled \<Rightarrow>
     (case svm of
        Inl e \<Rightarrow> Inl e
      | Inr (prediction, decision_score) \<Rightarrow>
          if s_ip current_session \<in> known_bad_ips then Inr 90
          else
            let base_score = ip_base_score ip_address (s_ip current_session);
                risk_score = svm_risk_score prediction decision_score;
                final_score = max base_score risk_score
            in if login_history \<noteq> [] \<and>
                  3 < ip_recent_ips (s_timestamp current_session) login_history
               then Inr (min 100 (final_score + 20))
               else Inr final_score))"

definition ip_predict_risk ::
  "detector \<Rightarrow> (string \<Rightarrow> ip_address_info option) \<Rightarrow> string set \<Rightarrow> py_error + int \<times> real \<Rightarrow>
   'a current_session_scheme \<Rightarrow> login_history_item list \<Rightarrow> int" where
  "ip_predict_risk d ip_address known_bad_ips svm current_session login_history =
     (if model_missing d then 50
      else or_default (ip_predict_body d ip_address known_bad_ips svm current_session login_history))"

subsection \<open>Login time (ml_models/datetime_model.py)\<close>

text \<open>
  \<open>datetime.fromtimestamp(ms / 1000)\<close> gives local time; \<open>tz_offset_ms\<close> is the host's offset
  from UTC at that instant. The call raises outside the years 1 to 9999.
\<close>

definition fromtimestamp_hour :: "int \<Rightarrow> int \<Rightarrow> py_error + int" where
  "fromtimestamp_hour tz_offset_ms timestamp =
     (let local = timestamp + tz_offset_ms
      in if local < - 62135596800000 \<or> 253402300799999 < local then Inl ValueError
         else Inr ((local div 3600000) mod 24))"

definition isolation_base_risk :: "int \<Rightarrow> real \<Rightarrow> int" where
  "isolation_base_risk prediction anomaly_score =
     clamp100 (if prediction = 1 then py_int (15 - anomaly_score * 15)
               else py_int (50 - anomaly_score * 30))"

definition recent_count :: "int \<Rightarrow> login_history_item list \<Rightarrow> nat" where
  "recent_count timestamp login_history =
     length (filter (\<lambda>item. timestamp - h_timestamp item < 300000) login_history)"

definition recent_failures :: "login_history_item list \<Rightarrow> nat" where
  "recent_failures login_history =
     length (filter (\<lambda>item. h_loginStatus item = Failure) (last_n 10 login_history))"

fun intervals_of :: "int list \<Rightarrow> int list" where
  "intervals_of (a # b # rest) = (b - a) # intervals_of (b # rest)"
| "intervals_of rest = []"

definition exact_intervals :: "login_history_item list \<Rightarrow> bool" where
  "exact_intervals login_history =
     (login_history \<noteq> [] \<and> 5 < length login_history \<and>
      count_distinct (intervals_of (sort (map h_timestamp (last_n 6 login_history)))) = 1)"

definition datetime_rules :: "int \<Rightarrow> int \<Rightarrow> int \<Rightarrow> login_history_item list \<Rightarrow> int" where
  "datetime_rules base_risk0 hour timestamp login_history =
     (let base_risk1 = (if 2 \<le> hour \<and> hour \<le> 5 then min 100 (base_risk0 + 20) else base_risk0);
          base_risk2 =
            (if login_history \<noteq> [] then
               (if 5 < recent_count timestamp login_history then min 100 (base_risk1 + 30)
                else if 3 < recent_count timestamp login_history then min 100 (base_risk1 + 15)
                else base_risk1)
             else base_risk1);
          base_risk3 =
            (if login_history \<noteq> [] \<and> 3 < recent_failures login_history
             then min 100 (base_risk2 + 20) else base_risk2)
      in if exact_intervals login_history then min 100 (base_risk3 + 25) else base_risk3)"

definition datetime_predict_body ::
  "detector \<Rightarrow> int \<Rightarrow> py_error + int \<times> real \<Rightarrow> 'a current_session_scheme \<Rightarrow>
   login_history_item list \<Rightarrow> py_error + int" where
  "datetime_predict_body d tz_offset_ms forest current_session login_history =
     (case scaler_transform d of
        Inl e \<Rightarrow> Inl e
      | Inr features_scaled \<Rightarrow>
     (case forest of
        Inl e \<Rightarrow> Inl e
      | Inr (prediction, anomaly_score) \<Rightarrow>
          (case fromtimestamp_hour tz_offset_ms (s_timestamp current_session) of
             Inl e \<Rightarrow> Inl e
           | Inr hour \<Rightarrow>
               Inr (datetime_rules (isolation_base_risk prediction anomaly_score) hour
                      (s_timestamp current_session) login_history))))"

definition datetime_predict_risk ::
  "detector \<Rightarrow> int \<Rightarrow> py_error + int \<times> real \<Rightarrow> 'a current_session_scheme \<Rightarrow> login_history_item list \<Rightarrow> int" where
  "datetime_predict_risk d tz_offset_ms forest current_session login_history =
     (if model_missing d then 50
      else or_default (datetime_predict_body d tz_offset_ms forest current_session login_history))"

subsection \<open>Client agent (ml_models/useragent_model.py)\<close>

text \<open>
  \<open>user_agents.parse\<close> is a library: of its result the rules read \<open>is_bot\<close>, the browser
  family, and the major version \<open>int(version_string.split('.')[0])\<close>, which is \<open>None\<close> when
  that conversion raises. The autoencoder yields the reconstruction error \<open>mse\<close>; the
  detector compares it with its \<open>threshold\<close>.
\<close>

record parsed_user_agent =
  is_bot :: bool
  browser_family :: string
  major_version :: "int option"

definition outdated_browsers :: "string \<Rightarrow> int option" where
  "outdated_browsers family =
     (if family = ''Chrome'' then Some 80
      else if family = ''Firefox'' then Some 75
      else if family = ''Safari'' then Some 13
      else if family = ''Edge'' then Some 80
      else None)"

text \<open>Dividing by a zero threshold yields no number that \<open>int\<close> accepts: the call raises.\<close>

definition autoencoder_base_risk :: "real \<Rightarrow> real \<Rightarrow> py_error + int" where
  "autoencoder_base_risk mse threshold =
     (if mse \<le> threshold then
        (if threshold = 0 then Inl ValueError
         else Inr (clamp100 (py_int (30 * (mse / threshold)))))
      else
        let excess = mse - threshold
        in Inr (clamp100 (30 + py_int (70 * (1 - exp (- excess * 5))))))"

definition is_outdated :: "parsed_user_agent \<Rightarrow> bool" where
  "is_outdated ua =
     (case major_version ua of
        None \<Rightarrow> False
      | Some v \<Rightarrow>
          (case outdated_browsers (browser_family ua) of
             None \<Rightarrow> False
           | Some minimum \<Rightarrow> v < minimum))"

definition useragent_rules ::
  "int \<Rightarrow> parsed_user_agent \<Rightarrow> 'a current_session_scheme \<Rightarrow> login_history_item list \<Rightarrow> int" where
  "useragent_rules base_risk0 ua current_session login_history =
     (let ua_str = lower (s_userAgent current_session);
          base_risk1 = (if is_bot ua then max base_risk0 80 else base_risk0);
          base_risk2 =
            (if list_ex (\<lambda>pattern. contains ua_str pattern) [''headless'', ''phantom'', ''selenium'']
             then max base_risk1 85 else base_risk1);
          base_risk3 =
            (if contains ua_str ''puppeteer'' \<or> contains ua_str ''HeadlessChrome''
             then max base_risk2 90 else base_risk2);
          base_risk4 = (if is_outdated ua then min 100 (base_risk3 + 20) else base_risk3);
          base_risk5 = (if length ua_str < 20 then max base_risk4 75 else base_risk4);
          base_risk6 =
            (if s_touchSupport current_session = Some True \<and> contains ua_str ''Windows NT''
                \<and> \<not> contains ua_str ''Mobile''
             then min 100 (base_risk5 + 15) else base_risk5)
      in if login_history \<noteq> [] \<and> 5 < count_distinct (map h_userAgent (last_n 10 login_history))
         then min 100 (base_risk6 + 10) else base_risk6)"

definition useragent_predict_body ::
  "detector \<Rightarrow> (string \<Rightarrow> parsed_user_agent) \<Rightarrow> py_error + real \<times> real \<Rightarrow>
   'a current_session_scheme \<Rightarrow> login_history_item list \<Rightarrow> py_error + int" where
  "useragent_predict_body d parse autoencoder current_session login_history =
     (case scaler_transform d of
        Inl e \<Rightarrow> Inl e
      | Inr features_scaled \<Rightarrow>
     (case autoencoder of
        Inl e \<Rightarrow> Inl e
      | Inr (mse, threshold) \<Rightarrow>
          (case autoencoder_base_risk mse threshold of
             Inl e \<Rightarrow> Inl e
           | Inr base_risk \<Rightarrow>
               Inr (useragent_rules base_risk (parse (s_userAgent current_session))
                      current_session login_history))))"

definition useragent_predict_risk ::
  "detector \<Rightarrow> (string \<Rightarrow> parsed_user_agent) \<Rightarrow> py_error + real \<times> real \<Rightarrow> 'a current_session_scheme \<Rightarrow>
   login_history_item list \<Rightarrow> int" where
  "useragent_predict_risk d parse autoencoder current_session login_history =
     (if model_missing d then 50
      else or_default (useragent_predict_body d parse autoencoder current_session login_history))"

subsection \<open>Geography (ml_models/geolocation_model.py)\<close>

definition max_travel_speed_kmh :: real where "max_travel_speed_kmh = 900"

definition high_risk_countries :: "string set" where
  "high_risk_countries = {''North Korea'', ''Iran'', ''Syria'', ''Cuba'', ''Crimea''}"

text \<open>The location \<open>predict_risk\<close> builds for the current session.\<close>

definition default_location :: location where
  "default_location =
     \<lparr>country = ''United States'', city = ''New York'', latitude = 40.7128, longitude = - 74.0060\<rparr>"

text \<open>\<open>GeolocationRiskModel.calculate_travel_speed\<close>: two locations and two timestamps.\<close>

definition model_travel_speed :: "location \<Rightarrow> location \<Rightarrow> int \<Rightarrow> int \<Rightarrow> py_float" where
  "model_travel_speed loc1 loc2 time1 time2 =
     (let distance = haversine_distance (latitude loc1) (longitude loc1) (latitude loc2) (longitude loc2);
          time_diff_hours = real_of_int \<bar>time2 - time1\<bar> / 3600000
      in if time_diff_hours = 0 then PosInf else Fin (distance / time_diff_hours))"

text \<open>\<open>max(login_history, key=lambda x: x['timestamp'])\<close>: the first item of greatest timestamp.\<close>

fun latest_from :: "login_history_item \<Rightarrow> login_history_item list \<Rightarrow> login_history_item" where
  "latest_from best [] = best"
| "latest_from best (x # xs) =
     latest_from (if h_timestamp best < h_timestamp x then x else best) xs"

text \<open>
  The density model yields the least distance to a core sample, or \<open>None\<close> when the detector
  holds no core samples.
\<close>

definition dbscan_base_risk :: "real option \<Rightarrow> int" where
  "dbscan_base_risk core_distance =
     clamp100
       (case core_distance of
          None \<Rightarrow> 50
        | Some distances \<Rightarrow>
            if distances < 0.3 then py_int (30 * (distances / 0.3))
            else 30 + py_int (70 * (1 - exp (- distances))))"

definition physics_rule :: "int \<Rightarrow> py_float \<Rightarrow> int" where
  "physics_rule base_risk speed =
     (if float_gt speed max_travel_speed_kmh then
        (let raised = max base_risk 85 in if float_gt speed 2000 then 95 else raised)
      else if float_gt speed 500 then min 100 (base_risk + 20)
      else base_risk)"

definition recent_countries :: "int \<Rightarrow> login_history_item list \<Rightarrow> string list" where
  "recent_countries current_time login_history =
     filter (\<lambda>c. c \<noteq> [])
       (map (\<lambda>item. country (h_location item))
          (filter (\<lambda>item. current_time - h_timestamp item < 86400000) (last_n 10 login_history)))"

definition geolocation_rules ::
  "int \<Rightarrow> location \<Rightarrow> 'a current_session_scheme \<Rightarrow> login_history_item list \<Rightarrow> int" where
  "geolocation_rules base_risk0 loc current_session login_history =
     (let base_risk2 =
            (case login_history of
               [] \<Rightarrow> base_risk0
             | first # rest \<Rightarrow>
                 let last_login = latest_from first rest;
                     speed = model_travel_speed loc (h_location last_login)
                               (s_timestamp current_session) (h_timestamp last_login);
                     base_risk1 = physics_rule base_risk0 speed
                 in if 3 < count_distinct (recent_countries (s_timestamp current_session) login_history)
                    then min 100 (base_risk1 + 15) else base_risk1)
      in if country loc \<in> high_risk_countries then max base_risk2 70 else base_risk2)"

definition geolocation_predict_body ::
  "detector \<Rightarrow> py_error + real option \<Rightarrow> 'a current_session_scheme \<Rightarrow> login_history_item list \<Rightarrow>
   py_error + int" where
  "geolocation_predict_body d dbscan current_session login_history =
     (case scaler_transform d of
        Inl e \<Rightarrow> Inl e
      | Inr features_scaled \<Rightarrow>
     (case dbscan of
        Inl e \<Rightarrow> Inl e
      | Inr core_distance \<Rightarrow>
          Inr (geolocation_rules (dbscan_base_risk core_distance) default_location
                 current_session login_history)))"

definition geolocation_predict_risk ::
  "detector \<Rightarrow> py_error + real option \<Rightarrow> 'a current_session_scheme \<Rightarrow> login_history_item list \<Rightarrow> int" where
  "geolocation_predict_risk d dbscan current_session login_history =
     (if model_missing d then 50
      else or_default (geolocation_predict_body d dbscan current_session login_history))"

section \<open>The request pipeline (api/main.py)\<close>

subsection \<open>Rate limiting\<close>

text \<open>
  The shared counter lives in Redis, an external store: \<open>INCR\<close> creates a missing key with
  value 1 and no expiry, otherwise adds one and keeps the key's expiry; \<open>EXPIRE\<close> sets the
  key to vanish the given number of seconds later; a key whose expiry has passed is gone.
  Times are \<open>time.time()\<close> in seconds. The store may be unreachable, or fail between the two
  calls; either way the handler's bare \<open>except\<close> runs the in-process fallback.
\<close>

record redis_entry =
  r_count :: int
  r_expires_at :: "real option"

datatype redis_status = RedisUp | RedisDown | RedisFailsOnExpire

record server_state =
  models :: "(string \<times> detector) list"
  redis_store :: "string \<Rightarrow> redis_entry option"
  rate_limit_cache :: "string \<Rightarrow> real list option"

definition redis_get :: "(string \<Rightarrow> redis_entry option) \<Rightarrow> real \<Rightarrow> string \<Rightarrow> redis_entry option" where
  "redis_get store now key =
     (case store key of
        None \<Rightarrow> None
      | Some entry \<Rightarrow>
          (case r_expires_at entry of
             None \<Rightarrow> Some entry
           | Some t \<Rightarrow> if t \<le> now then None else Some entry))"

definition redis_incr ::
  "(string \<Rightarrow> redis_entry option) \<Rightarrow> real \<Rightarrow> string \<Rightarrow> int \<times> (string \<Rightarrow> redis_entry option)" where
  "redis_incr store now key =
     (case redis_get store now key of
        None \<Rightarrow> (1, store(key \<mapsto> \<lparr>r_count = 1, r_expires_at = None\<rparr>))
      | Some entry \<Rightarrow> (r_count entry + 1, store(key \<mapsto> entry\<lparr>r_count := r_count entry + 1\<rparr>)))"

definition redis_expire ::
  "(string \<Rightarrow> redis_entry option) \<Rightarrow> real \<Rightarrow> string \<Rightarrow> real \<Rightarrow> (string \<Rightarrow> redis_entry option)" where
  "redis_expire store now key seconds =
     (case redis_get store now key of
        None \<Rightarrow> store
      | Some entry \<Rightarrow> store(key \<mapsto> entry\<lparr>r_expires_at := Some (now + seconds)\<rparr>))"

definition cache_key_of :: "string \<Rightarrow> string \<Rightarrow> string" where
  "cache_key_of api_key client_ip = ''rate_limit:'' @ api_key @ '':'' @ client_ip"

text \<open>The \<open>try\<close> branch of \<open>check_rate_limit\<close>, when both Redis calls succeed.\<close>

definition shared_rate_limit ::
  "(string \<Rightarrow> redis_entry option) \<Rightarrow> real \<Rightarrow> string \<Rightarrow> bool \<times> (string \<Rightarrow> redis_entry option)" where
  "shared_rate_limit store now cache_key =
     (let (current, store1) = redis_incr store now cache_key;
          store2 = (if current = 1 then redis_expire store1 now cache_key RATE_LIMIT_PERIOD else store1)
      in (current \<le> int RATE_LIMIT_REQUESTS, store2))"

text \<open>The \<open>except\<close> branch: a list of request times per key.\<close>

definition fallback_rate_limit ::
  "(string \<Rightarrow> real list option) \<Rightarrow> real \<Rightarrow> string \<Rightarrow> bool \<times> (string \<Rightarrow> real list option)" where
  "fallback_rate_limit cache current_time cache_key =
     (let entries = (case cache cache_key of None \<Rightarrow> [] | Some ts \<Rightarrow> ts);
          kept = filter (\<lambda>t. current_time - t < RATE_LIMIT_PERIOD) entries;
          appended = kept @ [current_time]
      in (length appended \<le> RATE_LIMIT_REQUESTS, cache(cache_key \<mapsto> appended)))"

definition check_rate_limit ::
  "redis_status \<Rightarrow> real \<Rightarrow> server_state \<Rightarrow> string \<Rightarrow> string \<Rightarrow> bool \<times> server_state" where
  "check_rate_limit redis now st api_key client_ip =
     (let cache_key = cache_key_of api_key client_ip
      in case redis of
           RedisUp \<Rightarrow>
             (let (allowed, store) = shared_rate_limit (redis_store st) now cache_key
              in (allowed, st\<lparr>redis_store := store\<rparr>))
         | RedisDown \<Rightarrow>
             (let (allowed, cache) = fallback_rate_limit (rate_limit_cache st) now cache_key
              in (allowed, st\<lparr>rate_limit_cache := cache\<rparr>))
         | RedisFailsOnExpire \<Rightarrow>
             (let (current, store) = redis_incr (redis_store st) now cache_key;
                  (allowed, cache) = fallback_rate_limit (rate_limit_cache st) now cache_key
              in if current = 1 then (allowed, st\<lparr>redis_store := store, rate_limit_cache := cache\<rparr>)
                 else (current \<le> int RATE_LIMIT_REQUESTS, st\<lparr>redis_store := store\<rparr>)))"

subsection \<open>Startup and health\<close>

definition detector_names :: "string list" where
  "detector_names = [''ip'', ''datetime'', ''useragent'', ''geolocation'']"

text \<open>
  \<open>startup_event\<close> constructs the four detectors and calls \<open>load_model\<close> on each one, keeping
  the detector as constructed when the call raises; \<open>file_loads name\<close> says whether that
  detector's file can be read. Nothing in the serving process calls \<open>train\<close>.
\<close>

definition startup_event :: "(string \<Rightarrow> bool) \<Rightarrow> server_state" where
  "startup_event file_loads =
     \<lparr>models = map (\<lambda>name. (name, (case load_model (file_loads name) new_detector of
                                        Inl e \<Rightarrow> new_detector
                                      | Inr loaded \<Rightarrow> loaded)))
                   detector_names,
      redis_store = (\<lambda>k. None),
      rate_limit_cache = (\<lambda>k. None)\<rparr>"

text \<open>\<open>redis_ping\<close> and \<open>mongodb_ping\<close> say whether the two pings returned.\<close>

definition health_check :: "bool \<Rightarrow> bool \<Rightarrow> server_state \<Rightarrow> health_response" where
  "health_check redis_ping mongodb_ping st =
     (let loaded = list_all (\<lambda>(name, model). is_loaded model \<or> has_model model) (models st)
      in \<lparr>status = (if loaded then ''healthy'' else ''degraded''),
          models_loaded = loaded,
          redis_connected = redis_ping,
          mongodb_connected = mongodb_ping\<rparr>)"

subsection \<open>Analysis\<close>

definition get_location_from_ip :: "string \<Rightarrow> location" where
  "get_location_from_ip a =
     (if startswith a ''192.168'' \<or> startswith a ''10.'' then
        \<lparr>country = ''Private Network'', city = ''Local'', latitude = 0, longitude = 0\<rparr>
      else if startswith a ''8.8'' then
        \<lparr>country = ''United States'', city = ''Mountain View'',
         latitude = 37.4056, longitude = - 122.0775\<rparr>
      else
        \<lparr>country = ''United States'', city = ''New York'',
         latitude = 40.7128, longitude = - 74.0060\<rparr>)"

text \<open>
  What a request meets outside the repository's code: the framework's and the libraries'
  answers, the clock, the host's time zone, and what the learned models answer for this
  request once the features are scaled (a detector whose scaler was never fitted does not get
  that far).
  \<open>sanitize\<close> stands for the two regular-expression substitutions and the \<open>strip\<close> that
  \<open>sanitize_input\<close> applies to every string.
\<close>

record environment =
  api_key :: string
  client_host :: string
  now :: real
  redis :: redis_status
  is_email :: "string \<Rightarrow> bool"
  ip_address :: "string \<Rightarrow> ip_address_info option"
  sanitize :: "string \<Rightarrow> string"
  parse :: "string \<Rightarrow> parsed_user_agent"
  tz_offset_ms :: int
  known_bad_ips :: "string set"
  svm :: "py_error + int \<times> real"
  forest :: "py_error + int \<times> real"
  autoencoder :: "py_error + real \<times> real"
  dbscan :: "py_error + real option"
  request_id :: string
  processing_time :: int

datatype api_error =
  RequestValidationError | RateLimitExceeded | InvalidIPAddress | InvalidTimestamp
  | InternalServerError

definition is_validation_error :: "api_error \<Rightarrow> bool" where
  "is_validation_error e = (e = RequestValidationError \<or> e = InvalidIPAddress \<or> e = InvalidTimestamp)"

text \<open>The checks of \<open>AnalyzeRequest\<close> that the types do not already make: they run before the handler.\<close>

definition validate_request :: "(string \<Rightarrow> bool) \<Rightarrow> analyze_request \<Rightarrow> bool" where
  "validate_request email_ok req = (\<not> 1000 < length (loginHistory req) \<and> email_ok (userId req))"

definition sanitize_location :: "(string \<Rightarrow> string) \<Rightarrow> location \<Rightarrow> location" where
  "sanitize_location f l = l\<lparr>country := f (country l), city := f (city l)\<rparr>"

definition sanitize_item :: "(string \<Rightarrow> string) \<Rightarrow> login_history_item \<Rightarrow> login_history_item" where
  "sanitize_item f item =
     item\<lparr>h_ip := f (h_ip item), h_userAgent := f (h_userAgent item),
          h_location := sanitize_location f (h_location item)\<rparr>"

definition sanitize_session :: "(string \<Rightarrow> string) \<Rightarrow> current_session \<Rightarrow> current_session" where
  "sanitize_session f cs = cs\<lparr>s_ip := f (s_ip cs), s_userAgent := f (s_userAgent cs)\<rparr>"

definition overall_score :: "int \<Rightarrow> int \<Rightarrow> int \<Rightarrow> int \<Rightarrow> int" where
  "overall_score s0 s1 s2 s3 =
     py_int (fadd (fadd (fadd (fmul (of_int s0) IP_WEIGHT) (fmul (of_int s1) DATETIME_WEIGHT))
                        (fmul (of_int s2) USERAGENT_WEIGHT))
                  (fmul (of_int s3) GEOLOCATION_WEIGHT))"

definition run_models ::
  "environment \<Rightarrow> detector \<Rightarrow> detector \<Rightarrow> detector \<Rightarrow> detector \<Rightarrow> analyze_request \<Rightarrow> analyze_response" where
  "run_models env m_ip m_datetime m_useragent m_geolocation req =
     (let current_session_dict = sanitize_session (sanitize env) (currentSession req);
          login_history_dict = map (sanitize_item (sanitize env)) (loginHistory req);
          loc = get_location_from_ip (s_ip current_session_dict);
          input = current_session.extend current_session_dict
                    (model_input.fields loc login_history_dict);
          s0 = ip_predict_risk m_ip (ip_address env) (known_bad_ips env) (svm env)
                 input login_history_dict;
          s1 = datetime_predict_risk m_datetime (tz_offset_ms env) (forest env)
                 input login_history_dict;
          s2 = useragent_predict_risk m_useragent (parse env) (autoencoder env)
                 input login_history_dict;
          s3 = geolocation_predict_risk m_geolocation (dbscan env) input login_history_dict;
          total = overall_score s0 s1 s2 s3
      in \<lparr>meta = \<lparr>requestId = request_id env, m_userId = userId req,
                   m_timestamp = s_timestamp (currentSession req),
                   processingTime = processing_time env, modelsVersion = MODELS_VERSION\<rparr>,
          scores = \<lparr>ip = max 0 (min 100 s0), datetime = max 0 (min 100 s1),
                     userAgent = max 0 (min 100 s2), geolocation = max 0 (min 100 s3),
                     overall = max 0 (min 100 total)\<rparr>\<rparr>)"

text \<open>
  The handler. Writing the audit record and caching the result cannot fail the request and
  are never read back, so they are left out of the state.
\<close>

definition analyze_risk ::
  "environment \<Rightarrow> server_state \<Rightarrow> analyze_request \<Rightarrow> (api_error + analyze_response) \<times> server_state" where
  "analyze_risk env st req =
     (if \<not> validate_request (is_email env) req then (Inl RequestValidationError, st)
      else
        let (allowed, st1) = check_rate_limit (redis env) (now env) st (api_key env) (client_host env)
        in if \<not> allowed then (Inl RateLimitExceeded, st1)
           else if \<not> validate_ip_address (ip_address env) (s_ip (currentSession req))
             then (Inl InvalidIPAddress, st1)
           else if \<not> validate_timestamp (s_timestamp (currentSession req))
             then (Inl InvalidTimestamp, st1)
           else
             (case (map_of (models st1) ''ip'', map_of (models st1) ''datetime'',
                    map_of (models st1) ''useragent'', map_of (models st1) ''geolocation'') of
                (Some m_ip, Some m_datetime, Some m_useragent, Some m_geolocation) \<Rightarrow>
                  (Inr (run_models env m_ip m_datetime m_useragent m_geolocation req), st1)
              | _ \<Rightarrow> (Inl InternalServerError, st1)))"

text \<open>
  The states of the serving process: the one \<open>startup_event\<close> leaves, and every state a
  request leaves behind.
\<close>

inductive reachable :: "server_state \<Rightarrow> bool" where
  started: "reachable (startup_event file_loads)"
| served: "reachable st \<Longrightarrow> reachable (snd (analyze_risk env st req))"


section \<open>Request sequences\<close>



text \<open>The state after the same request was served \<open>n\<close> times.\<close>

fun serve_many :: "nat \<Rightarrow> environment \<Rightarrow> analyze_request \<Rightarrow> server_state \<Rightarrow> server_state" where
  "serve_many 0 e req st = st"
| "serve_many (Suc n) e req st = serve_many n e req (snd (analyze_risk e st req))"

section \<open>Example inputs\<close>

text \<open>
  Concrete requests, states and library answers at which the theorems below are evaluated.
  \<open>example_ip_address\<close> answers as \<open>ipaddress.ip_address\<close> does on the addresses used here,
  \<open>example_parse\<close> as \<open>user_agents.parse\<close> does on the two agents used here.
\<close>

definition example_ip_address :: "string \<Rightarrow> ip_address_info option" where
  "example_ip_address a =
     (if a = ''73.45.123.45'' then Some \<lparr>is_private = False, ip_text = ''73.45.123.45''\<rparr>
      else if a = ''192.168.1.10'' then Some \<lparr>is_private = True, ip_text = ''192.168.1.10''\<rparr>
      else None)"

definition example_is_email :: "string \<Rightarrow> bool" where
  "example_is_email s = (s = ''user@example.com'')"

definition example_parse :: "string \<Rightarrow> parsed_user_agent" where
  "example_parse s =
     (if contains s ''HeadlessChrome''
      then \<lparr>is_bot = False, browser_family = ''HeadlessChrome'', major_version = Some 120\<rparr>
      else \<lparr>is_bot = False, browser_family = ''Chrome'', major_version = Some 120\<rparr>)"

definition chrome_agent :: string where
  "chrome_agent = ''Mozilla/5.0 (Windows NT 10.0; Win64; x64) Chrome/120.0.0.0''"

definition headless_agent :: string where
  "headless_agent = ''Mozilla/5.0 (X11; Linux x86_64) HeadlessChrome/120.0.0.0 Safari/537.36''"

definition example_env :: environment where
  "example_env =
     \<lparr>api_key = ''no-auth-required'', client_host = ''203.0.113.7'', now = 1000,
      redis = RedisUp, is_email = example_is_email, ip_address = example_ip_address,
      sanitize = (\<lambda>s. s), parse = example_parse, tz_offset_ms = 0, known_bad_ips = {},
      svm = Inr (1, 4 / 5), forest = Inr (1, - (9 / 20)), autoencoder = Inr (1 / 50, 1 / 20),
      dbscan = Inr (Some (3 / 20)),
      request_id = ''req_0123456789ab'', processing_time = 5\<rparr>"

definition example_session :: current_session where
  "example_session =
     \<lparr>s_ip = ''73.45.123.45'', s_userAgent = chrome_agent, s_timestamp = 1700000000000,
      s_touchSupport = None\<rparr>"

definition example_request :: analyze_request where
  "example_request =
     \<lparr>currentSession = example_session, loginHistory = [], userId = ''user@example.com''\<rparr>"

text \<open>The state after a start-up at which only the network detector's file was found.\<close>

definition only_ip_loaded :: server_state where
  "only_ip_loaded = startup_event (\<lambda>name. name = ''ip'')"

definition all_loaded :: server_state where
  "all_loaded = startup_event (\<lambda>name. True)"

definition none_loaded :: server_state where
  "none_loaded = startup_event (\<lambda>name. False)"

text \<open>A detector as \<open>load_model\<close> leaves it, and one as \<open>train\<close> leaves it.\<close>

definition loaded_detector :: detector where
  "loaded_detector = \<lparr>is_loaded = True, has_model = True, scaler_fitted = False\<rparr>"

definition trained_detector :: detector where
  "trained_detector = train new_detector"

text \<open>The response to \<open>example_request\<close> in the state \<open>only_ip_loaded\<close>.\<close>

definition only_ip_response :: analyze_response where
  "only_ip_response =
     run_models example_env loaded_detector new_detector new_detector new_detector example_request"

text \<open>
  A login from New York, and 42 minutes later a session from a private address, which
  \<open>get_location_from_ip\<close> places at latitude 0, longitude 0.
\<close>

definition new_york :: location where
  "new_york =
     \<lparr>country = ''United States'', city = ''New York'', latitude = 40.7128, longitude = - 74.0060\<rparr>"

definition new_york_login :: login_history_item where
  "new_york_login =
     \<lparr>h_ip = ''73.45.123.45'', h_userAgent = chrome_agent, h_timestamp = 1699997480000,
      h_location = new_york, h_loginStatus = Success\<rparr>"

definition travel_session :: current_session where
  "travel_session =
     \<lparr>s_ip = ''192.168.1.10'', s_userAgent = chrome_agent, s_timestamp = 1700000000000,
      s_touchSupport = None\<rparr>"

definition travel_request :: analyze_request where
  "travel_request =
     \<lparr>currentSession = travel_session, loginHistory = [new_york_login],
      userId = ''user@example.com''\<rparr>"

text \<open>A session whose agent names a headless browser.\<close>

definition headless_session :: current_session where
  "headless_session =
     \<lparr>s_ip = ''73.45.123.45'', s_userAgent = headless_agent, s_timestamp = 1700000000000,
      s_touchSupport = None\<rparr>"

definition headless_request :: analyze_request where
  "headless_request =
     \<lparr>currentSession = headless_session, loginHistory = [], userId = ''user@example.com''\<rparr>"

text \<open>The responses to these two requests when every detector's file was found at start-up.\<close>

definition travel_response :: analyze_response where
  "travel_response =
     run_models example_env loaded_detector loaded_detector loaded_detector loaded_detector
       travel_request"

definition headless_response :: analyze_response where
  "headless_response =
     run_models example_env loaded_detector loaded_detector loaded_detector loaded_detector
       headless_request"

text \<open>Three successful logins in the five minutes before \<open>example_session\<close>, at uneven intervals.\<close>

definition login_at :: "int \<Rightarrow> login_history_item" where
  "login_at t =
     \<lparr>h_ip = ''73.45.123.45'', h_userAgent = chrome_agent, h_timestamp = t,
      h_location = new_york, h_loginStatus = Success\<rparr>"

definition three_recent :: "login_history_item list" where
  "three_recent = [login_at 1699999800000, login_at 1699999870000, login_at 1699999960000]"

text \<open>
  A request whose address does not parse, the rate-limit key of the example client, and the
  state after a hundred requests of that client.
\<close>

definition bad_address_request :: analyze_request where
  "bad_address_request =
     \<lparr>currentSession = example_session\<lparr>s_ip := ''999.1.1.1''\<rparr>, loginHistory = [],
      userId = ''user@example.com''\<rparr>"

definition example_key :: string where
  "example_key = cache_key_of ''no-auth-required'' ''203.0.113.7''"

definition busy_state :: server_state where
  "busy_state = serve_many 100 example_env example_request none_loaded"



section \<open>Every detector's score lies between 0 and 100\<close>

lemma clamp100_range: "0 \<le> clamp100 x \<and> clamp100 x \<le> 100"
  by (simp add: clamp100_def)

lemma or_default_range:
  assumes "\<And>v. r = Inr v \<Longrightarrow> 0 \<le> v \<and> v \<le> 100"
  shows "0 \<le> or_default r \<and> or_default r \<le> 100"
  using assms by (cases r) (simp_all add: or_default_def)

lemma svm_risk_score_range: "0 \<le> svm_risk_score p s \<and> svm_risk_score p s \<le> 100"
  by (simp add: svm_risk_score_def min_def max_def)

lemma ip_base_score_range: "0 \<le> ip_base_score pa a \<and> ip_base_score pa a \<le> 100"
  by (simp add: ip_base_score_def split: option.splits)

lemma ip_predict_body_range:
  assumes "ip_predict_body d pa bad sv cs h = Inr v"
  shows "0 \<le> v \<and> v \<le> 100"
proof (cases sv)
  case (Inl e)
  with assms show ?thesis by (simp add: ip_predict_body_def split: sum.splits)
next
  case (Inr pr)
  obtain p s where pr: "pr = (p, s)" by (cases pr)
  have m: "0 \<le> max (ip_base_score pa (s_ip cs)) (svm_risk_score p s)
         \<and> max (ip_base_score pa (s_ip cs)) (svm_risk_score p s) \<le> 100"
    using svm_risk_score_range [of p s] ip_base_score_range [of pa "s_ip cs"] by (simp add: max_def)
  from assms Inr pr m show ?thesis
    by (simp add: ip_predict_body_def Let_def min_def split: if_splits sum.splits)
qed

lemma ip_predict_risk_range:
  "0 \<le> ip_predict_risk d pa bad sv cs h \<and> ip_predict_risk d pa bad sv cs h \<le> 100"
proof (cases "model_missing d")
  case True
  then show ?thesis by (simp add: ip_predict_risk_def)
next
  case False
  then show ?thesis
    using or_default_range [of "ip_predict_body d pa bad sv cs h"] ip_predict_body_range [of d pa bad sv cs h]
    by (simp add: ip_predict_risk_def)
qed

lemma datetime_rules_range:
  assumes "0 \<le> b" "b \<le> 100"
  shows "0 \<le> datetime_rules b hr ts h \<and> datetime_rules b hr ts h \<le> 100"
  using assms by (simp add: datetime_rules_def Let_def min_def)

lemma isolation_base_risk_range:
  "0 \<le> isolation_base_risk p a \<and> isolation_base_risk p a \<le> 100"
  by (simp add: isolation_base_risk_def clamp100_range)

lemma datetime_predict_body_range:
  assumes "datetime_predict_body d tz fo cs h = Inr v"
  shows "0 \<le> v \<and> v \<le> 100"
proof (cases fo)
  case (Inl e)
  with assms show ?thesis by (simp add: datetime_predict_body_def split: sum.splits)
next
  case (Inr pr)
  obtain p a where pr: "pr = (p, a)" by (cases pr)
  show ?thesis
  proof (cases "fromtimestamp_hour tz (s_timestamp cs)")
    case (Inl e)
    with assms \<open>fo = Inr pr\<close> pr show ?thesis
      by (simp add: datetime_predict_body_def split: sum.splits)
  next
    case (Inr hr)
    with assms \<open>fo = Inr pr\<close> pr
    have "v = datetime_rules (isolation_base_risk p a) hr (s_timestamp cs) h"
      by (simp add: datetime_predict_body_def split: sum.splits)
    then show ?thesis
      using datetime_rules_range [of "isolation_base_risk p a" hr "s_timestamp cs" h]
        isolation_base_risk_range [of p a] by simp
  qed
qed

lemma datetime_predict_risk_range:
  "0 \<le> datetime_predict_risk d tz fo cs h \<and> datetime_predict_risk d tz fo cs h \<le> 100"
proof (cases "model_missing d")
  case True
  then show ?thesis by (simp add: datetime_predict_risk_def)
next
  case False
  then show ?thesis
    using or_default_range [of "datetime_predict_body d tz fo cs h"]
      datetime_predict_body_range [of d tz fo cs h]
    by (simp add: datetime_predict_risk_def)
qed

lemma useragent_rules_range:
  assumes "0 \<le> b" "b \<le> 100"
  shows "0 \<le> useragent_rules b ua cs h \<and> useragent_rules b ua cs h \<le> 100"
  using assms by (simp add: useragent_rules_def Let_def min_def max_def)

lemma autoencoder_base_risk_range:
  assumes "autoencoder_base_risk m t = Inr b"
  shows "0 \<le> b \<and> b \<le> 100"
  using assms clamp100_range
  by (auto simp: autoencoder_base_risk_def Let_def split: if_splits)

lemma useragent_predict_body_range:
  assumes "useragent_predict_body d pu ae cs h = Inr v"
  shows "0 \<le> v \<and> v \<le> 100"
proof (cases ae)
  case (Inl e)
  with assms show ?thesis by (simp add: useragent_predict_body_def split: sum.splits)
next
  case (Inr pr)
  obtain m t where pr: "pr = (m, t)" by (cases pr)
  show ?thesis
  proof (cases "autoencoder_base_risk m t")
    case (Inl e)
    with assms \<open>ae = Inr pr\<close> pr show ?thesis
      by (simp add: useragent_predict_body_def split: sum.splits)
  next
    case (Inr b)
    with assms \<open>ae = Inr pr\<close> pr
    have "v = useragent_rules b (pu (s_userAgent cs)) cs h"
      by (simp add: useragent_predict_body_def split: sum.splits)
    then show ?thesis
      using useragent_rules_range [of b "pu (s_userAgent cs)" cs h]
        autoencoder_base_risk_range [OF Inr] by simp
  qed
qed

lemma useragent_predict_risk_range:
  "0 \<le> useragent_predict_risk d pu ae cs h \<and> useragent_predict_risk d pu ae cs h \<le> 100"
proof (cases "model_missing d")
  case True
  then show ?thesis by (simp add: useragent_predict_risk_def)
next
  case False
  then show ?thesis
    using or_default_range [of "useragent_predict_body d pu ae cs h"]
      useragent_predict_body_range [of d pu ae cs h]
    by (simp add: useragent_predict_risk_def)
qed

lemma physics_rule_range:
  assumes "0 \<le> b" "b \<le> 100"
  shows "0 \<le> physics_rule b s \<and> physics_rule b s \<le> 100"
  using assms by (simp add: physics_rule_def Let_def min_def max_def)

lemma geolocation_rules_range:
  assumes "0 \<le> b" "b \<le> 100"
  shows "0 \<le> geolocation_rules b l cs h \<and> geolocation_rules b l cs h \<le> 100"
proof (cases h)
  case Nil
  with assms show ?thesis by (simp add: geolocation_rules_def max_def)
next
  case (Cons x xs)
  define sp where "sp = model_travel_speed l (h_location (latest_from x xs))
                          (s_timestamp cs) (h_timestamp (latest_from x xs))"
  have "0 \<le> physics_rule b sp \<and> physics_rule b sp \<le> 100"
    using physics_rule_range [OF assms] .
  with Cons show ?thesis
    by (simp add: geolocation_rules_def Let_def sp_def min_def max_def)
qed

lemma dbscan_base_risk_range: "0 \<le> dbscan_base_risk c \<and> dbscan_base_risk c \<le> 100"
  by (simp add: dbscan_base_risk_def clamp100_range)

lemma geolocation_predict_body_range:
  assumes "geolocation_predict_body d g cs h = Inr v"
  shows "0 \<le> v \<and> v \<le> 100"
proof (cases g)
  case (Inl e)
  with assms show ?thesis by (simp add: geolocation_predict_body_def split: sum.splits)
next
  case (Inr c)
  with assms have "v = geolocation_rules (dbscan_base_risk c) default_location cs h"
    by (simp add: geolocation_predict_body_def split: sum.splits)
  then show ?thesis
    using geolocation_rules_range [of "dbscan_base_risk c" default_location cs h]
      dbscan_base_risk_range [of c] by simp
qed

lemma geolocation_predict_risk_range:
  "0 \<le> geolocation_predict_risk d g cs h \<and> geolocation_predict_risk d g cs h \<le> 100"
proof (cases "model_missing d")
  case True
  then show ?thesis by (simp add: geolocation_predict_risk_def)
next
  case False
  then show ?thesis
    using or_default_range [of "geolocation_predict_body d g cs h"]
      geolocation_predict_body_range [of d g cs h]
    by (simp add: geolocation_predict_risk_def)
qed

lemma clamp_id: "0 \<le> x \<Longrightarrow> x \<le> 100 \<Longrightarrow> max 0 (min 100 x) = (x::int)"
  by simp

lemmas detector_ranges =
  ip_predict_risk_range [THEN conjunct1] ip_predict_risk_range [THEN conjunct2]
  datetime_predict_risk_range [THEN conjunct1] datetime_predict_risk_range [THEN conjunct2]
  useragent_predict_risk_range [THEN conjunct1] useragent_predict_risk_range [THEN conjunct2]
  geolocation_predict_risk_range [THEN conjunct1] geolocation_predict_risk_range [THEN conjunct2]

lemma run_models_scores:
  "scores (run_models env m0 m1 m2 m3 req) =
     (let cs = sanitize_session (sanitize env) (currentSession req);
          hist = map (sanitize_item (sanitize env)) (loginHistory req);
          input = current_session.extend cs (model_input.fields (get_location_from_ip (s_ip cs)) hist);
          s0 = ip_predict_risk m0 (ip_address env) (known_bad_ips env) (svm env) input hist;
          s1 = datetime_predict_risk m1 (tz_offset_ms env) (forest env) input hist;
          s2 = useragent_predict_risk m2 (parse env) (autoencoder env) input hist;
          s3 = geolocation_predict_risk m3 (dbscan env) input hist
      in \<lparr>ip = s0, datetime = s1, userAgent = s2, geolocation = s3,
          overall = max 0 (min 100 (overall_score s0 s1 s2 s3))\<rparr>)"
  by (simp add: run_models_def Let_def clamp_id detector_ranges)

lemma analyze_risk_Inr:
  assumes "fst (analyze_risk env st req) = Inr resp"
  shows "\<exists>m0 m1 m2 m3. resp = run_models env m0 m1 m2 m3 req"
  using assms
  by (auto simp: analyze_risk_def Let_def split: if_splits prod.splits option.splits)

lemma overall_50: "overall_score 50 50 50 50 = 50"
  by code_simp

lemma check_rate_limit_models:
  "models (snd (check_rate_limit r t st k c)) = models st"
  by (cases r) (simp_all add: check_rate_limit_def Let_def split: prod.splits)

lemma analyze_risk_accepts:
  assumes "validate_request (is_email env) req"
    and "fst (check_rate_limit (redis env) (now env) st (api_key env) (client_host env))"
    and "validate_ip_address (ip_address env) (s_ip (currentSession req))"
    and "validate_timestamp (s_timestamp (currentSession req))"
    and "map_of (models st) ''ip'' = Some m0"
    and "map_of (models st) ''datetime'' = Some m1"
    and "map_of (models st) ''useragent'' = Some m2"
    and "map_of (models st) ''geolocation'' = Some m3"
  shows "fst (analyze_risk env st req) = Inr (run_models env m0 m1 m2 m3 req)"
  using assms
  by (simp add: analyze_risk_def split_def check_rate_limit_models)

section \<open>The serving process\<close>

lemma startup_models:
  "map_of (models (startup_event f)) ''ip'' =
     Some (if f ''ip'' then loaded_detector else new_detector)"
  "map_of (models (startup_event f)) ''datetime'' =
     Some (if f ''datetime'' then loaded_detector else new_detector)"
  "map_of (models (startup_event f)) ''useragent'' =
     Some (if f ''useragent'' then loaded_detector else new_detector)"
  "map_of (models (startup_event f)) ''geolocation'' =
     Some (if f ''geolocation'' then loaded_detector else new_detector)"
  by (simp_all add: startup_event_def detector_names_def load_model_def new_detector_def
      loaded_detector_def)

lemma startup_unfitted:
  assumes "map_of (models (startup_event f)) name = Some d"
  shows "\<not> scaler_fitted d"
  using assms
  by (auto simp: startup_event_def detector_names_def load_model_def new_detector_def
      split: if_splits)

lemma analyze_risk_models: "models (snd (analyze_risk env st req)) = models st"
  by (simp add: analyze_risk_def split_def Let_def check_rate_limit_models
      split: option.splits)

lemma reachable_models:
  assumes "reachable st"
  shows "\<exists>f. models st = models (startup_event f)"
  using assms
proof (induction rule: reachable.induct)
  case (started file_loads)
  show ?case by blast
next
  case (served st env req)
  then show ?case by (simp add: analyze_risk_models)
qed

lemma reachable_unfitted:
  assumes "reachable st" and "map_of (models st) name = Some d"
  shows "\<not> scaler_fitted d"
proof -
  from reachable_models [OF assms(1)] obtain f where "models st = models (startup_event f)" ..
  with assms(2) show ?thesis using startup_unfitted [of f name d] by simp
qed

lemma unfitted_scores:
  assumes "\<not> scaler_fitted d"
  shows "ip_predict_risk d pa bad sv cs h = 50"
    and "datetime_predict_risk d tz fo cs h = 50"
    and "useragent_predict_risk d pu ae cs h = 50"
    and "geolocation_predict_risk d g cs h = 50"
  using assms
  by (simp_all add: ip_predict_risk_def datetime_predict_risk_def useragent_predict_risk_def
      geolocation_predict_risk_def ip_predict_body_def datetime_predict_body_def
      useragent_predict_body_def geolocation_predict_body_def scaler_transform_def or_default_def)

lemma analyze_risk_Inr_models:
  assumes "fst (analyze_risk env st req) = Inr resp"
  shows "\<exists>m0 m1 m2 m3. resp = run_models env m0 m1 m2 m3 req
           \<and> map_of (models st) ''ip'' = Some m0 \<and> map_of (models st) ''datetime'' = Some m1
           \<and> map_of (models st) ''useragent'' = Some m2
           \<and> map_of (models st) ''geolocation'' = Some m3"
  using assms
  by (auto simp: analyze_risk_def split_def Let_def check_rate_limit_models
      split: if_splits option.splits)

lemma reachable_scores:
  assumes "reachable st" and "fst (analyze_risk env st req) = Inr resp"
  shows "scores resp = \<lparr>ip = 50, datetime = 50, userAgent = 50, geolocation = 50, overall = 50\<rparr>"
proof -
  from analyze_risk_Inr_models [OF assms(2)] obtain m0 m1 m2 m3
    where r: "resp = run_models env m0 m1 m2 m3 req"
      and m: "map_of (models st) ''ip'' = Some m0" "map_of (models st) ''datetime'' = Some m1"
        "map_of (models st) ''useragent'' = Some m2" "map_of (models st) ''geolocation'' = Some m3"
    by blast
  have u: "\<not> scaler_fitted m0" "\<not> scaler_fitted m1" "\<not> scaler_fitted m2" "\<not> scaler_fitted m3"
    using reachable_unfitted [OF assms(1)] m by blast+
  show ?thesis
    unfolding r run_models_scores Let_def
    by (simp add: unfitted_scores [OF u(1)] unfitted_scores [OF u(2)] unfitted_scores [OF u(3)]
        unfitted_scores [OF u(4)] overall_50)
qed

lemma startup_rate_limit:
  "fst (check_rate_limit RedisUp t (startup_event f) k c)"
  by (simp add: check_rate_limit_def shared_rate_limit_def redis_incr_def redis_get_def
      startup_event_def Let_def RATE_LIMIT_REQUESTS_def)

lemma example_request_valid:
  "validate_request (is_email example_env) example_request"
  "validate_ip_address (ip_address example_env) (s_ip (currentSession example_request))"
  "validate_timestamp (s_timestamp (currentSession example_request))"
  by (simp_all add: validate_request_def example_env_def example_request_def example_is_email_def
      validate_ip_address_def example_ip_address_def example_session_def validate_timestamp_def)

lemma example_accepted:
  "fst (analyze_risk example_env (startup_event f) example_request) =
     Inr (run_models example_env
            (if f ''ip'' then loaded_detector else new_detector)
            (if f ''datetime'' then loaded_detector else new_detector)
            (if f ''useragent'' then loaded_detector else new_detector)
            (if f ''geolocation'' then loaded_detector else new_detector)
            example_request)"
proof (rule analyze_risk_accepts)
  show "fst (check_rate_limit (redis example_env) (now example_env) (startup_event f)
          (api_key example_env) (client_host example_env))"
    using startup_rate_limit [of _ f] by (simp add: example_env_def)
qed (simp_all add: example_request_valid startup_models)

lemma only_ip_accepted:
  "fst (analyze_risk example_env only_ip_loaded example_request) = Inr only_ip_response"
  using example_accepted [of "\<lambda>name. name = ''ip''"]
  by (simp add: only_ip_loaded_def only_ip_response_def)


section \<open>The scores of a response\<close>

text \<open>
  C2. For every request that is analysed, each of the five scores of the response (ip,
  datetime, userAgent, geolocation, overall) is an integer between 0 and 100.
\<close>

theorem scores_in_range:
  assumes "fst (analyze_risk env st req) = Inr resp"
  shows "0 \<le> ip (scores resp) \<and> ip (scores resp) \<le> 100
       \<and> 0 \<le> datetime (scores resp) \<and> datetime (scores resp) \<le> 100
       \<and> 0 \<le> userAgent (scores resp) \<and> userAgent (scores resp) \<le> 100
       \<and> 0 \<le> geolocation (scores resp) \<and> geolocation (scores resp) \<le> 100
       \<and> 0 \<le> overall (scores resp) \<and> overall (scores resp) \<le> 100"
proof -
  from analyze_risk_Inr [OF assms] obtain m0 m1 m2 m3
    where r: "resp = run_models env m0 m1 m2 m3 req" by blast
  show ?thesis
    unfolding r run_models_scores Let_def
    by (simp add: detector_ranges)
qed

text \<open>The hypothesis holds at \<open>example_request\<close>.\<close>

theorem scores_in_range_witness:
  "fst (analyze_risk example_env only_ip_loaded example_request) = Inr only_ip_response
   \<and> 0 \<le> ip (scores only_ip_response) \<and> ip (scores only_ip_response) \<le> 100
   \<and> 0 \<le> datetime (scores only_ip_response) \<and> datetime (scores only_ip_response) \<le> 100
   \<and> 0 \<le> userAgent (scores only_ip_response) \<and> userAgent (scores only_ip_response) \<le> 100
   \<and> 0 \<le> geolocation (scores only_ip_response) \<and> geolocation (scores only_ip_response) \<le> 100
   \<and> 0 \<le> overall (scores only_ip_response) \<and> overall (scores only_ip_response) \<le> 100"
  using only_ip_accepted scores_in_range [OF only_ip_accepted] by (rule conjI)



text \<open>
  Whatever the four detectors answer, the overall score is the weighted sum computed in
  double precision from left to right and truncated toward zero by \<open>int\<close>, then clamped.
\<close>

theorem overall_is_truncated_weighted_sum:
  assumes "fst (analyze_risk env st req) = Inr resp"
  shows "overall (scores resp) =
           max 0 (min 100 (py_int
             (fadd (fadd (fadd (fmul (of_int (ip (scores resp))) IP_WEIGHT)
                               (fmul (of_int (datetime (scores resp))) DATETIME_WEIGHT))
                         (fmul (of_int (userAgent (scores resp))) USERAGENT_WEIGHT))
                   (fmul (of_int (geolocation (scores resp))) GEOLOCATION_WEIGHT))))"
proof -
  from analyze_risk_Inr [OF assms] obtain m0 m1 m2 m3
    where r: "resp = run_models env m0 m1 m2 m3 req" by blast
  show ?thesis
    unfolding r run_models_scores Let_def
    by (simp add: overall_score_def)
qed

theorem overall_is_truncated_weighted_sum_witness:
  "fst (analyze_risk example_env only_ip_loaded example_request) = Inr only_ip_response
   \<and> overall (scores only_ip_response) =
       max 0 (min 100 (py_int
         (fadd (fadd (fadd (fmul (of_int (ip (scores only_ip_response))) IP_WEIGHT)
                           (fmul (of_int (datetime (scores only_ip_response))) DATETIME_WEIGHT))
                     (fmul (of_int (userAgent (scores only_ip_response))) USERAGENT_WEIGHT))
               (fmul (of_int (geolocation (scores only_ip_response))) GEOLOCATION_WEIGHT))))"
  using only_ip_accepted overall_is_truncated_weighted_sum [OF only_ip_accepted] by (rule conjI)

section \<open>Detectors never fail a request\<close>

lemma or_default_Inl: "or_default (Inl e) = 50"
  by (simp add: or_default_def)

text \<open>
  C5. For every session and history, each detector's \<open>predict_risk\<close> is a total function
  into the integers 0 to 100 (an exception raised inside it is a value \<open>Inl e\<close> of its body
  and never leaves it); it returns exactly 50 when its model is missing and when its body
  raises, and a request that passes validation and rate limiting is answered whatever the
  detectors do.
\<close>

theorem detectors_never_fail:
  "(0 \<le> ip_predict_risk d pa bad sv cs h \<and> ip_predict_risk d pa bad sv cs h \<le> 100)
   \<and> (0 \<le> datetime_predict_risk d tz fo cs h \<and> datetime_predict_risk d tz fo cs h \<le> 100)
   \<and> (0 \<le> useragent_predict_risk d pu ae cs h \<and> useragent_predict_risk d pu ae cs h \<le> 100)
   \<and> (0 \<le> geolocation_predict_risk d g cs h \<and> geolocation_predict_risk d g cs h \<le> 100)
   \<and> (model_missing d \<longrightarrow>
        ip_predict_risk d pa bad sv cs h = 50 \<and> datetime_predict_risk d tz fo cs h = 50
        \<and> useragent_predict_risk d pu ae cs h = 50 \<and> geolocation_predict_risk d g cs h = 50)
   \<and> (ip_predict_body d pa bad sv cs h = Inl e \<longrightarrow> ip_predict_risk d pa bad sv cs h = 50)
   \<and> (datetime_predict_body d tz fo cs h = Inl e \<longrightarrow> datetime_predict_risk d tz fo cs h = 50)
   \<and> (useragent_predict_body d pu ae cs h = Inl e \<longrightarrow> useragent_predict_risk d pu ae cs h = 50)
   \<and> (geolocation_predict_body d g cs h = Inl e \<longrightarrow> geolocation_predict_risk d g cs h = 50)
   \<and> (validate_request (is_email env) req
        \<and> fst (check_rate_limit (redis env) (now env) st (api_key env) (client_host env))
        \<and> validate_ip_address (ip_address env) (s_ip (currentSession req))
        \<and> validate_timestamp (s_timestamp (currentSession req))
        \<and> map_of (models st) ''ip'' = Some m0 \<and> map_of (models st) ''datetime'' = Some m1
        \<and> map_of (models st) ''useragent'' = Some m2 \<and> map_of (models st) ''geolocation'' = Some m3
      \<longrightarrow> fst (analyze_risk env st req) = Inr (run_models env m0 m1 m2 m3 req))"
proof -
  have a: "model_missing d \<longrightarrow>
        ip_predict_risk d pa bad sv cs h = 50 \<and> datetime_predict_risk d tz fo cs h = 50
        \<and> useragent_predict_risk d pu ae cs h = 50 \<and> geolocation_predict_risk d g cs h = 50"
    by (simp add: ip_predict_risk_def datetime_predict_risk_def useragent_predict_risk_def
        geolocation_predict_risk_def)
  have b: "ip_predict_body d pa bad sv cs h = Inl e \<longrightarrow> ip_predict_risk d pa bad sv cs h = 50"
    by (simp add: ip_predict_risk_def or_default_Inl)
  have c: "datetime_predict_body d tz fo cs h = Inl e \<longrightarrow> datetime_predict_risk d tz fo cs h = 50"
    by (simp add: datetime_predict_risk_def or_default_Inl)
  have d: "useragent_predict_body d pu ae cs h = Inl e \<longrightarrow> useragent_predict_risk d pu ae cs h = 50"
    by (simp add: useragent_predict_risk_def or_default_Inl)
  have e: "geolocation_predict_body d g cs h = Inl e \<longrightarrow> geolocation_predict_risk d g cs h = 50"
    by (simp add: geolocation_predict_risk_def or_default_Inl)
  have f: "validate_request (is_email env) req
        \<and> fst (check_rate_limit (redis env) (now env) st (api_key env) (client_host env))
        \<and> validate_ip_address (ip_address env) (s_ip (currentSession req))
        \<and> validate_timestamp (s_timestamp (currentSession req))
        \<and> map_of (models st) ''ip'' = Some m0 \<and> map_of (models st) ''datetime'' = Some m1
        \<and> map_of (models st) ''useragent'' = Some m2 \<and> map_of (models st) ''geolocation'' = Some m3
      \<longrightarrow> fst (analyze_risk env st req) = Inr (run_models env m0 m1 m2 m3 req)"
    using analyze_risk_accepts by blast
  show ?thesis
    using ip_predict_risk_range [of d pa bad sv cs h] datetime_predict_risk_range [of d tz fo cs h]
      useragent_predict_risk_range [of d pu ae cs h] geolocation_predict_risk_range [of d g cs h]
      a b c d e f
    by blast
qed

theorem detectors_never_fail_witness:
  "model_missing new_detector
   \<and> ip_predict_body new_detector example_ip_address {} (Inr (1, 4 / 5)) example_session []
       = Inl NotFittedError
   \<and> datetime_predict_body new_detector 0 (Inr (1, - (9 / 20))) example_session []
       = Inl NotFittedError
   \<and> useragent_predict_body new_detector example_parse (Inr (1 / 50, 1 / 20)) example_session []
       = Inl NotFittedError
   \<and> geolocation_predict_body new_detector (Inr (Some (3 / 20))) example_session []
       = Inl NotFittedError
   \<and> ip_predict_risk new_detector example_ip_address {} (Inr (1, 4 / 5)) example_session [] = 50
   \<and> datetime_predict_risk new_detector 0 (Inr (1, - (9 / 20))) example_session [] = 50
   \<and> useragent_predict_risk new_detector example_parse (Inr (1 / 50, 1 / 20)) example_session [] = 50
   \<and> geolocation_predict_risk new_detector (Inr (Some (3 / 20))) example_session [] = 50
   \<and> fst (analyze_risk example_env only_ip_loaded example_request) = Inr only_ip_response"
proof -
  have m: "model_missing new_detector"
    by (simp add: model_missing_def new_detector_def)
  have b: "ip_predict_body new_detector example_ip_address {} (Inr (1, 4 / 5)) example_session []
             = Inl NotFittedError"
    "datetime_predict_body new_detector 0 (Inr (1, - (9 / 20))) example_session []
             = Inl NotFittedError"
    "useragent_predict_body new_detector example_parse (Inr (1 / 50, 1 / 20)) example_session []
             = Inl NotFittedError"
    "geolocation_predict_body new_detector (Inr (Some (3 / 20))) example_session []
             = Inl NotFittedError"
    by (simp_all add: ip_predict_body_def datetime_predict_body_def useragent_predict_body_def
        geolocation_predict_body_def scaler_transform_def new_detector_def)
  have v: "validate_request (is_email example_env) example_request"
    "fst (check_rate_limit (redis example_env) (now example_env) only_ip_loaded
            (api_key example_env) (client_host example_env))"
    "validate_ip_address (ip_address example_env) (s_ip (currentSession example_request))"
    "validate_timestamp (s_timestamp (currentSession example_request))"
    "map_of (models only_ip_loaded) ''ip'' = Some loaded_detector"
    "map_of (models only_ip_loaded) ''datetime'' = Some new_detector"
    "map_of (models only_ip_loaded) ''useragent'' = Some new_detector"
    "map_of (models only_ip_loaded) ''geolocation'' = Some new_detector"
    using startup_rate_limit [of "now example_env" "\<lambda>name. name = ''ip''"]
    by (simp_all add: example_request_valid only_ip_loaded_def startup_models)
      (simp add: example_env_def)
  show ?thesis
    using m b v
      detectors_never_fail [where d = new_detector and pa = example_ip_address and bad = "{}"
        and sv = "Inr (1, 4 / 5)" and cs = example_session and h = "[]" and tz = 0
        and fo = "Inr (1, - (9 / 20))" and pu = example_parse and ae = "Inr (1 / 50, 1 / 20)"
        and g = "Inr (Some (3 / 20))" and e = NotFittedError and env = example_env
        and st = only_ip_loaded and req = example_request and ?m0.0 = loaded_detector
        and ?m1.0 = new_detector and ?m2.0 = new_detector and ?m3.0 = new_detector]
    by (simp add: only_ip_response_def)
qed

section \<open>Health\<close>

lemma reachable_registered:
  assumes "reachable st"
  shows "map fst (models st) = detector_names"
proof -
  from reachable_models [OF assms] obtain f where "models st = models (startup_event f)" ..
  then show ?thesis by (simp add: startup_event_def comp_def)
qed

text \<open>
  C10. With the four detectors registered, the health operation reports \<open>healthy\<close> exactly
  when each of them has \<open>is_loaded\<close> set or holds a model object, and \<open>degraded\<close> otherwise;
  the status does not depend on whether Redis or MongoDB answer, which only the fields
  \<open>redis_connected\<close> and \<open>mongodb_connected\<close> report, and no other status is returned.
\<close>

theorem health_status:
  assumes "map fst (models st) = detector_names"
  shows "(status (health_check redis_ping mongodb_ping st) = ''healthy''
            \<longleftrightarrow> (\<forall>name \<in> set detector_names.
                   \<exists>d. map_of (models st) name = Some d \<and> (is_loaded d \<or> has_model d)))
       \<and> (status (health_check redis_ping mongodb_ping st) \<noteq> ''healthy''
            \<longrightarrow> status (health_check redis_ping mongodb_ping st) = ''degraded'')
       \<and> status (health_check redis_ping mongodb_ping st) = status (health_check r2 m2 st)
       \<and> models_loaded (health_check redis_ping mongodb_ping st)
            = (status (health_check redis_ping mongodb_ping st) = ''healthy'')
       \<and> redis_connected (health_check redis_ping mongodb_ping st) = redis_ping
       \<and> mongodb_connected (health_check redis_ping mongodb_ping st) = mongodb_ping"
proof -
  from assms obtain a b c e where ms: "models st = [a, b, c, e]"
    and n: "fst a = ''ip''" "fst b = ''datetime''" "fst c = ''useragent''" "fst e = ''geolocation''"
    by (auto simp: detector_names_def map_eq_Cons_conv)
  obtain da db dc de where d: "a = (''ip'', da)" "b = (''datetime'', db)"
      "c = (''useragent'', dc)" "e = (''geolocation'', de)"
    using n by (cases a, cases b, cases c, cases e) auto
  show ?thesis
    by (simp add: health_check_def Let_def ms d detector_names_def)
qed

theorem health_status_witness:
  "map fst (models only_ip_loaded) = detector_names
   \<and> status (health_check True False only_ip_loaded) = ''degraded''
   \<and> status (health_check False False all_loaded) = ''healthy''"
proof -
  have a: "map fst (models only_ip_loaded) = detector_names"
    by (simp add: only_ip_loaded_def startup_event_def detector_names_def)
  have b: "map_of (models only_ip_loaded) ''datetime'' = Some new_detector"
    by (simp add: only_ip_loaded_def startup_models)
  have c: "\<not> (is_loaded new_detector \<or> has_model new_detector)"
    by (simp add: new_detector_def)
  have e: "status (health_check False False all_loaded) = ''healthy''"
    by (simp add: health_check_def all_loaded_def startup_event_def detector_names_def
        load_model_def new_detector_def)
  from health_status [OF a, of True False] b c
  have "status (health_check True False only_ip_loaded) = ''degraded''"
    by (auto simp: detector_names_def)
  with a e show ?thesis by simp
qed

section \<open>Travel speed\<close>





section \<open>The temporal rules\<close>

lemma datetime_rules_sum:
  assumes "0 \<le> b" and "b \<le> 100"
  shows "datetime_rules b hr ts h =
     min 100 (b + (if 2 \<le> hr \<and> hr \<le> 5 then 20 else 0)
                + (if 5 < recent_count ts h then 30 else if 3 < recent_count ts h then 15 else 0)
                + (if 3 < recent_failures h then 20 else 0)
                + (if exact_intervals h then 25 else 0))"
proof -
  have e: "h = [] \<Longrightarrow> recent_count ts h = 0 \<and> recent_failures h = 0"
    by (simp add: recent_count_def recent_failures_def last_n_def)
  show ?thesis
  proof (cases "h = []")
    case True
    with e assms show ?thesis
      by (simp add: datetime_rules_def Let_def exact_intervals_def min_def)
  next
    case False
    with assms show ?thesis
      by (simp add: datetime_rules_def Let_def min_def)
  qed
qed

lemma trained_detector_state:
  "\<not> model_missing trained_detector" "scaler_fitted trained_detector"
  by (simp_all add: trained_detector_def train_def new_detector_def model_missing_def)

lemma example_hour: "fromtimestamp_hour 0 (s_timestamp example_session) = Inr 22"
  by (simp add: fromtimestamp_hour_def example_session_def)

lemma example_base: "isolation_base_risk 1 (- (9 / 20)) = 21"
proof -
  have "\<lfloor>87 / 4 :: real\<rfloor> = 21" by linarith
  then show ?thesis by (simp add: isolation_base_risk_def clamp100_def py_int_def)
qed

lemma three_recent_counts:
  "recent_count (s_timestamp example_session) three_recent = 3"
  "recent_failures three_recent = 0"
  "\<not> exact_intervals three_recent"
  by (simp_all add: recent_count_def recent_failures_def exact_intervals_def three_recent_def
      login_at_def example_session_def last_n_def)

text \<open>
  C6, as amended. When the temporal detector's prediction runs (a model is present, the
  scaler is fitted, the forest answers and the timestamp converts), the score is the clamped
  model base score plus 20 when the local hour is between 2 and 5, plus 30 when more than 5
  history logins have a timestamp less than 300000 ms before the session's (15 when 4 or 5
  have; nothing for 3), plus 20 when more than 3 of the last 10 history items have status
  failure, plus 25 when the history has more than 5 items and the five intervals between the
  sorted timestamps of its last six items are all equal; the sum is capped at 100.
\<close>

theorem temporal_rules:
  assumes "\<not> model_missing d" and "scaler_fitted d"
    and "fromtimestamp_hour tz (s_timestamp cs) = Inr hour"
  shows "datetime_predict_risk d tz (Inr (p, a)) cs h =
     min 100
       (isolation_base_risk p a
        + (if 2 \<le> hour \<and> hour \<le> 5 then 20 else 0)
        + (if 5 < length (filter (\<lambda>item. s_timestamp cs - h_timestamp item < 300000) h) then 30
           else if 3 < length (filter (\<lambda>item. s_timestamp cs - h_timestamp item < 300000) h) then 15
           else 0)
        + (if 3 < length (filter (\<lambda>item. h_loginStatus item = Failure) (last_n 10 h)) then 20 else 0)
        + (if 5 < length h
              \<and> length (remdups (intervals_of (sort (map h_timestamp (last_n 6 h))))) = 1
           then 25 else 0))"
proof -
  have n: "5 < length h \<Longrightarrow> h \<noteq> []" by auto
  have "datetime_predict_risk d tz (Inr (p, a)) cs h =
          datetime_rules (isolation_base_risk p a) hour (s_timestamp cs) h"
    using assms
    by (simp add: datetime_predict_risk_def datetime_predict_body_def scaler_transform_def
        or_default_def)
  also have "\<dots> = min 100
       (isolation_base_risk p a
        + (if 2 \<le> hour \<and> hour \<le> 5 then 20 else 0)
        + (if 5 < recent_count (s_timestamp cs) h then 30
           else if 3 < recent_count (s_timestamp cs) h then 15 else 0)
        + (if 3 < recent_failures h then 20 else 0)
        + (if exact_intervals h then 25 else 0))"
    using isolation_base_risk_range [of p a] by (simp add: datetime_rules_sum)
  finally show ?thesis
    using n by (simp add: recent_count_def recent_failures_def exact_intervals_def
        count_distinct_def cong: if_cong)
qed

theorem temporal_rules_witness:
  "\<not> model_missing trained_detector \<and> scaler_fitted trained_detector
   \<and> fromtimestamp_hour 0 (s_timestamp example_session) = Inr 22
   \<and> datetime_predict_risk trained_detector 0 (Inr (1, - (9 / 20))) example_session three_recent
       = 21"
proof -
  have l: "length three_recent = 3" by (simp add: three_recent_def)
  show ?thesis
    using temporal_rules [OF trained_detector_state example_hour, of 1 "- (9 / 20)" three_recent]
      three_recent_counts(1,2)
    by (simp add: trained_detector_state example_hour example_base recent_count_def
        recent_failures_def l)
qed

text \<open>
  C6 as stated fails: with exactly three history logins in the five minutes before the
  session (and no other rule applying) the score stays at the base score 21; nothing is
  added.
\<close>

theorem three_logins_not_raised:
  "recent_count (s_timestamp example_session) three_recent = 3
   \<and> isolation_base_risk 1 (- (9 / 20)) = 21
   \<and> datetime_predict_risk trained_detector 0 (Inr (1, - (9 / 20))) example_session three_recent
       = 21
   \<and> datetime_predict_risk trained_detector 0 (Inr (1, - (9 / 20))) example_session three_recent
       \<noteq> min 100 (isolation_base_risk 1 (- (9 / 20)) + 15)"
proof -
  have "datetime_predict_risk trained_detector 0 (Inr (1, - (9 / 20))) example_session three_recent
          = datetime_rules (isolation_base_risk 1 (- (9 / 20))) 22 (s_timestamp example_session)
              three_recent"
    using example_hour
    by (simp add: datetime_predict_risk_def datetime_predict_body_def scaler_transform_def
        or_default_def trained_detector_state)
  also have "\<dots> = 21"
    using three_recent_counts
    by (simp add: datetime_rules_sum example_base)
  finally show ?thesis
    by (simp add: three_recent_counts example_base)
qed

section \<open>Validation\<close>

lemma shared_rate_limit_live:
  assumes "store k = Some \<lparr>r_count = n, r_expires_at = Some e\<rparr>" and "t < e" and "1 \<le> n"
  shows "shared_rate_limit store t k =
           (n + 1 \<le> 100, store(k \<mapsto> \<lparr>r_count = n + 1, r_expires_at = Some e\<rparr>))"
  using assms
  by (simp add: shared_rate_limit_def redis_incr_def redis_get_def Let_def RATE_LIMIT_REQUESTS_def)

lemma shared_rate_limit_fresh:
  assumes "store k = None"
  shows "shared_rate_limit store t k =
           (True, store(k \<mapsto> \<lparr>r_count = 1, r_expires_at = Some (t + 60)\<rparr>))"
  using assms
  by (simp add: shared_rate_limit_def redis_incr_def redis_expire_def redis_get_def Let_def
      RATE_LIMIT_REQUESTS_def RATE_LIMIT_PERIOD_def)

lemma analyze_risk_state:
  assumes "validate_request (is_email env) req"
  shows "snd (analyze_risk env st req) =
           snd (check_rate_limit (redis env) (now env) st (api_key env) (client_host env))"
  using assms
  by (simp add: analyze_risk_def Let_def split_def split: option.splits)

lemma example_serve_live:
  assumes "redis_store st example_key = Some \<lparr>r_count = n, r_expires_at = Some 1060\<rparr>" and "1 \<le> n"
  shows "redis_store (snd (analyze_risk example_env st example_request)) example_key
           = Some \<lparr>r_count = n + 1, r_expires_at = Some 1060\<rparr>"
proof -
  have "snd (analyze_risk example_env st example_request) =
          snd (check_rate_limit RedisUp 1000 st ''no-auth-required'' ''203.0.113.7'')"
    using analyze_risk_state [OF example_request_valid(1), of st] by (simp add: example_env_def)
  then show ?thesis
    using shared_rate_limit_live [where store = "redis_store st" and k = example_key and n = n
        and e = 1060 and t = 1000] assms
    by (simp add: check_rate_limit_def Let_def example_key_def)
qed

lemma serve_many_live:
  assumes "redis_store st example_key = Some \<lparr>r_count = n, r_expires_at = Some 1060\<rparr>" and "1 \<le> n"
  shows "redis_store (serve_many m example_env example_request st) example_key
           = Some \<lparr>r_count = n + int m, r_expires_at = Some 1060\<rparr>"
  using assms
proof (induction m arbitrary: st n)
  case 0
  then show ?case by simp
next
  case (Suc m)
  from example_serve_live [OF Suc.prems]
  have "redis_store (serve_many m example_env example_request
                       (snd (analyze_risk example_env st example_request))) example_key
          = Some \<lparr>r_count = n + 1 + int m, r_expires_at = Some 1060\<rparr>"
    using Suc.prems(2) by (intro Suc.IH) simp_all
  then show ?case by (simp add: add.assoc)
qed

lemma first_request_state:
  "redis_store (snd (analyze_risk example_env none_loaded example_request)) example_key
     = Some \<lparr>r_count = 1, r_expires_at = Some 1060\<rparr>"
proof -
  have "snd (analyze_risk example_env none_loaded example_request) =
          snd (check_rate_limit RedisUp 1000 none_loaded ''no-auth-required'' ''203.0.113.7'')"
    using analyze_risk_state [OF example_request_valid(1), of none_loaded]
    by (simp add: example_env_def)
  moreover have "redis_store none_loaded example_key = None"
    by (simp add: none_loaded_def startup_event_def)
  ultimately show ?thesis
    using shared_rate_limit_fresh [of "redis_store none_loaded" example_key 1000]
    by (simp add: check_rate_limit_def Let_def example_key_def)
qed

lemma busy_state_count:
  "redis_store busy_state example_key = Some \<lparr>r_count = 100, r_expires_at = Some 1060\<rparr>"
proof -
  have "busy_state = serve_many 99 example_env example_request
                       (snd (analyze_risk example_env none_loaded example_request))"
    by (simp add: busy_state_def eval_nat_numeral)
  then show ?thesis
    using serve_many_live [OF first_request_state, of 99] by simp
qed

lemma serve_many_reachable:
  assumes "reachable st"
  shows "reachable (serve_many m e req st)"
  using assms by (induction m arbitrary: st) (simp_all add: reachable.served)

lemma busy_state_reachable: "reachable busy_state"
  unfolding busy_state_def none_loaded_def
  by (rule serve_many_reachable) (rule reachable.started)

lemma bad_address_request_facts:
  "validate_request (is_email example_env) bad_address_request"
  "ip_address example_env (s_ip (currentSession bad_address_request)) = None"
  "validate_timestamp (s_timestamp (currentSession bad_address_request))"
  by (simp_all add: validate_request_def example_env_def bad_address_request_def
      example_is_email_def example_ip_address_def example_session_def validate_timestamp_def)

text \<open>
  C7, as amended. The analyze operation rejects a request with a validation error, computing
  no scores, if and only if the login history exceeds 1000 items, or userId is not
  syntactically an email, or the request is within the rate limit and its address does not
  parse or its timestamp lies outside 1577836800000 to 1893456000000 (both bounds
  included). The rate limit is checked before the address and the timestamp: a request over
  the limit is rejected as rate-limited whatever its address and timestamp are.
\<close>

theorem validation_error_iff:
  "(\<exists>e. fst (analyze_risk env st req) = Inl e \<and> is_validation_error e)
   \<longleftrightarrow>
     (1000 < length (loginHistory req) \<or> \<not> is_email env (userId req)
      \<or> (fst (check_rate_limit (redis env) (now env) st (api_key env) (client_host env))
          \<and> (ip_address env (s_ip (currentSession req)) = None
               \<or> s_timestamp (currentSession req) < 1577836800000
               \<or> 1893456000000 < s_timestamp (currentSession req))))"
  by (auto simp: analyze_risk_def Let_def split_def is_validation_error_def validate_request_def
      validate_ip_address_def validate_timestamp_def split: option.splits)


theorem validation_error_iff_witness:
  "fst (check_rate_limit (redis example_env) (now example_env) none_loaded (api_key example_env)
          (client_host example_env))
   \<and> ip_address example_env (s_ip (currentSession bad_address_request)) = None
   \<and> (\<exists>e. fst (analyze_risk example_env none_loaded bad_address_request) = Inl e
            \<and> is_validation_error e)"
proof -
  have a: "fst (check_rate_limit (redis example_env) (now example_env) none_loaded
             (api_key example_env) (client_host example_env))"
    using startup_rate_limit [of "now example_env" "\<lambda>name. False"]
    by (simp add: example_env_def none_loaded_def)
  from a bad_address_request_facts(2) show ?thesis
    using validation_error_iff [of example_env none_loaded bad_address_request] by blast
qed

text \<open>
  C7 as stated fails: after a hundred requests of one client within the window, the
  client's next request is rejected as rate-limited although its address does not parse; it
  gets no validation error.
\<close>

theorem rate_limit_before_validation:
  "reachable busy_state
   \<and> ip_address example_env (s_ip (currentSession bad_address_request)) = None
   \<and> fst (analyze_risk example_env busy_state bad_address_request) = Inl RateLimitExceeded
   \<and> \<not> is_validation_error RateLimitExceeded"
proof -
  have "shared_rate_limit (redis_store busy_state) 1000 example_key =
          (False, (redis_store busy_state)
                    (example_key \<mapsto> \<lparr>r_count = 101, r_expires_at = Some 1060\<rparr>))"
    using shared_rate_limit_live [where store = "redis_store busy_state" and k = example_key
        and n = 100 and e = 1060 and t = 1000] busy_state_count by simp
  then have "\<not> fst (check_rate_limit (redis example_env) (now example_env) busy_state
                     (api_key example_env) (client_host example_env))"
    by (simp add: check_rate_limit_def Let_def example_key_def example_env_def)
  then have "fst (analyze_risk example_env busy_state bad_address_request) = Inl RateLimitExceeded"
    using bad_address_request_facts(1) by (simp add: analyze_risk_def Let_def split_def)
  then show ?thesis
    using busy_state_reachable bad_address_request_facts(2)
    by (simp add: is_validation_error_def)
qed

section \<open>The two rate limiters\<close>












section \<open>Headless agents\<close>

lemma sanitize_example [simp]: "sanitize example_env = (\<lambda>s. s)"
  by (simp add: example_env_def)

lemma headless_request_valid:
  "validate_request (is_email example_env) headless_request"
  "validate_ip_address (ip_address example_env) (s_ip (currentSession headless_request))"
  "validate_timestamp (s_timestamp (currentSession headless_request))"
  by (simp_all add: validate_request_def example_env_def headless_request_def example_is_email_def
      validate_ip_address_def example_ip_address_def headless_session_def validate_timestamp_def)

lemma headless_contains_1: "contains headless_agent ''HeadlessChrome''"
  by code_simp

lemma headless_contains_2: "contains (lower headless_agent) ''headless''"
  by code_simp

lemma headless_contains_3: "\<not> contains (lower headless_agent) ''HeadlessChrome''"
  by code_simp

lemma headless_contains_4: "\<not> contains (lower headless_agent) ''puppeteer''"
  by code_simp

lemma headless_contains_5:
  "\<not> contains (lower headless_agent) ''phantom''" "\<not> contains (lower headless_agent) ''selenium''"
  by code_simp+

lemma headless_length: "\<not> length (lower headless_agent) < 20"
  by (simp add: lower_def headless_agent_def)

lemma travel_request_valid:
  "validate_request (is_email example_env) travel_request"
  "validate_ip_address (ip_address example_env) (s_ip (currentSession travel_request))"
  "validate_timestamp (s_timestamp (currentSession travel_request))"
  by (simp_all add: validate_request_def example_env_def travel_request_def example_is_email_def
      validate_ip_address_def example_ip_address_def travel_session_def validate_timestamp_def)

lemma all_loaded_accepts:
  assumes "validate_request (is_email example_env) req"
    and "validate_ip_address (ip_address example_env) (s_ip (currentSession req))"
    and "validate_timestamp (s_timestamp (currentSession req))"
  shows "fst (analyze_risk example_env all_loaded req) =
           Inr (run_models example_env loaded_detector loaded_detector loaded_detector
                  loaded_detector req)"
proof (rule analyze_risk_accepts)
  show "fst (check_rate_limit (redis example_env) (now example_env) all_loaded
          (api_key example_env) (client_host example_env))"
    using startup_rate_limit [of _ "\<lambda>name. True"] by (simp add: example_env_def all_loaded_def)
qed (simp_all add: assms all_loaded_def startup_models)

lemma all_loaded_reachable: "reachable all_loaded"
  unfolding all_loaded_def by (rule reachable.started)

lemma headless_autoencoder_base: "autoencoder_base_risk (1 / 50) (1 / 20) = Inr 12"
  by (simp add: autoencoder_base_risk_def clamp100_def py_int_def)

lemma headless_trained_score:
  "useragent_predict_risk trained_detector example_parse (Inr (1 / 50, 1 / 20)) headless_session []
     = 85"
proof -
  have p: "example_parse headless_agent
             = \<lparr>is_bot = False, browser_family = ''HeadlessChrome'', major_version = Some 120\<rparr>"
    by (simp add: example_parse_def headless_contains_1)
  have c: "list_ex (contains (lower headless_agent)) [''headless'', ''phantom'', ''selenium'']"
    by (simp add: headless_contains_2)
  have "useragent_rules 12 (example_parse headless_agent) headless_session [] = 85"
    unfolding p
    using c headless_contains_3 headless_contains_4 headless_length
    by (simp add: useragent_rules_def Let_def headless_session_def is_outdated_def
        outdated_browsers_def)
  then show ?thesis
    by (simp add: useragent_predict_risk_def useragent_predict_body_def scaler_transform_def
        or_default_def trained_detector_def train_def new_detector_def model_missing_def
        headless_autoencoder_base headless_session_def)
qed

text \<open>
  C4 fails on the request of scenario S3, whose agent contains \<open>HeadlessChrome/120.0.0.0\<close>
  (and so \<open>headless\<close> once lowered). In the serving process, with every detector's file found
  at start-up, the userAgent score of the response is 50: the scaler of a loaded detector
  was never fitted. A detector fresh from \<open>train\<close> scores the same session 85 and not 90:
  the rule looks for \<open>HeadlessChrome\<close> in the lowered agent string.
\<close>

theorem headless_agent_scores:
  "reachable all_loaded
   \<and> contains (s_userAgent (currentSession headless_request)) ''HeadlessChrome''
   \<and> fst (analyze_risk example_env all_loaded headless_request) = Inr headless_response
   \<and> userAgent (scores headless_response) = 50
   \<and> useragent_predict_risk trained_detector example_parse (Inr (1 / 50, 1 / 20))
         headless_session [] = 85"
proof -
  have a: "fst (analyze_risk example_env all_loaded headless_request) = Inr headless_response"
    unfolding headless_response_def by (rule all_loaded_accepts) (rule headless_request_valid)+
  have "scores headless_response
          = \<lparr>ip = 50, datetime = 50, userAgent = 50, geolocation = 50, overall = 50\<rparr>"
    using reachable_scores [OF all_loaded_reachable a] .
  then show ?thesis
    using a all_loaded_reachable headless_trained_score headless_contains_1
    by (simp add: headless_request_def headless_session_def)
qed

section \<open>Impossible travel\<close>

lemma haversine_same: "haversine_distance la lo la lo = 0"
  by (simp add: haversine_distance_def radians_def atan2_def Let_def)

lemma dbscan_example_base: "dbscan_base_risk (Some (3 / 20)) = 15"
  by (simp add: dbscan_base_risk_def clamp100_def py_int_def)

lemma travel_trained_score:
  "geolocation_predict_risk trained_detector (Inr (Some (3 / 20))) travel_session [new_york_login]
     = 15"
proof -
  have s: "model_travel_speed default_location (h_location new_york_login)
             (s_timestamp travel_session) (h_timestamp new_york_login) = Fin 0"
    by (simp add: model_travel_speed_def default_location_def new_york_login_def new_york_def
        travel_session_def haversine_same Let_def)
  have c: "count_distinct (recent_countries (s_timestamp travel_session) [new_york_login]) = 1"
    by (simp add: recent_countries_def last_n_def new_york_login_def new_york_def
        travel_session_def count_distinct_def)
  have "geolocation_rules 15 default_location travel_session [new_york_login] = 15"
    using s c
    by (simp add: geolocation_rules_def Let_def physics_rule_def max_travel_speed_kmh_def
        default_location_def high_risk_countries_def)
  then show ?thesis
    by (simp add: geolocation_predict_risk_def geolocation_predict_body_def scaler_transform_def
        or_default_def trained_detector_def train_def new_detector_def model_missing_def
        dbscan_example_base)
qed

lemma sin_half_squared: "(sin (x / 2))\<^sup>2 = (1 - cos x) / (2::real)"
  using cos_double_sin [of "x / 2"] by simp

lemma atan2_lower:
  assumes "1 / 4 \<le> a" and "a < 1"
  shows "pi / 6 \<le> atan2 (sqrt a) (sqrt (1 - a))"
proof -
  have p: "0 < sqrt (1 - a)" using assms by simp
  have "1 - a \<le> 3 * a" using assms by simp
  then have "sqrt (1 - a) \<le> sqrt (3 * a)" by (rule real_sqrt_le_mono)
  then have "sqrt (1 - a) \<le> sqrt 3 * sqrt a" by (simp add: real_sqrt_mult)
  then have "1 / sqrt 3 \<le> sqrt a / sqrt (1 - a)"
    using p by (simp add: field_simps)
  then have "arctan (1 / sqrt 3) \<le> arctan (sqrt a / sqrt (1 - a))"
    by (simp only: arctan_le_iff)
  moreover have "arctan (1 / sqrt 3) = pi / 6"
    using arctan_tan [of "pi / 6"] by (simp add: tan_30)
  ultimately show ?thesis using p by (simp add: atan2_def)
qed

lemma haversine_origin_new_york: "4000 \<le> haversine_distance 0 0 40.7128 (- 74.0060)"
proof -
  define phi :: real where "phi = radians 40.7128"
  define lam :: real where "lam = radians 74.0060"
  have phi: "0 < phi" "phi < pi / 2"
    by (simp_all add: phi_def radians_def)
  have lam: "pi / 3 \<le> lam" "lam < pi / 2"
    by (simp_all add: lam_def radians_def)
  have cp: "0 < cos phi" "cos phi \<le> 1"
    using phi by (simp_all add: cos_gt_zero_pi)
  have cl0: "0 < cos lam"
    using lam pi_gt_zero by (intro cos_gt_zero_pi) linarith+
  have "cos lam \<le> cos (pi / 3)"
    using lam pi_gt_zero by (intro cos_monotone_0_pi_le) linarith+
  then have cl: "cos lam \<le> 1 / 2" by (simp add: cos_60)
  define a where "a = (sin (phi / 2))\<^sup>2 + cos 0 * cos phi * (sin (- lam / 2))\<^sup>2"
  have s1: "(sin (phi / 2))\<^sup>2 = (1 - cos phi) / 2" by (rule sin_half_squared)
  have "(sin (- lam / 2))\<^sup>2 = (sin (lam / 2))\<^sup>2" by simp
  then have s2: "(sin (- lam / 2))\<^sup>2 = (1 - cos lam) / 2" by (simp only: sin_half_squared)
  have a: "a = 1 / 2 - cos phi * cos lam / 2"
    unfolding a_def s1 s2 by (simp add: field_simps)
  have "cos phi * cos lam \<le> 1 * (1 / 2)"
    using cp cl cl0 by (intro mult_mono) simp_all
  then have lo: "1 / 4 \<le> a" unfolding a by (simp add: algebra_simps)
  have "0 < cos phi * cos lam" using cp cl0 by simp
  then have hi: "a < 1" unfolding a by (simp add: algebra_simps)
  have "pi / 6 \<le> atan2 (sqrt a) (sqrt (1 - a))"
    using atan2_lower [OF lo hi] .
  moreover have "haversine_distance 0 0 40.7128 (- 74.0060)
                   = 6371 * (2 * atan2 (sqrt a) (sqrt (1 - a)))"
    by (simp add: haversine_distance_def Let_def a_def phi_def lam_def radians_def
        earth_radius_km_def)
  moreover have "2 \<le> pi" by (rule pi_ge_two)
  ultimately show ?thesis by simp
qed

lemma travel_speed_example:
  "float_gt (model_travel_speed (get_location_from_ip (s_ip (currentSession travel_request)))
               (h_location new_york_login) (s_timestamp (currentSession travel_request))
               (h_timestamp new_york_login)) 2000"
proof -
  have l: "get_location_from_ip (s_ip (currentSession travel_request))
             = \<lparr>country = ''Private Network'', city = ''Local'', latitude = 0, longitude = 0\<rparr>"
    by (simp add: get_location_from_ip_def travel_request_def travel_session_def)
  have "2000 * (7 / 10) < haversine_distance 0 0 40.7128 (- 74.0060)"
    using haversine_origin_new_york by simp
  then have "2000 < haversine_distance 0 0 40.7128 (- 74.0060) / (7 / 10)"
    by (simp add: pos_less_divide_eq)
  then show ?thesis
    unfolding l
    by (simp add: model_travel_speed_def Let_def new_york_login_def new_york_def
        travel_request_def travel_session_def)
qed

text \<open>
  C3 fails on a request like scenario S5: a login in New York and, 42 minutes later, a
  session from an address that \<open>get_location_from_ip\<close> places at latitude 0, longitude 0,
  more than 4000 km away (over 2000 km/h). In the serving process, with every detector's
  file found at start-up, the geolocation score of the response is 50: the scaler of a
  loaded detector was never fitted. A detector fresh from \<open>train\<close> scores the same session 15:
  \<open>predict_risk\<close> does not read the location the handler found and takes the session to be
  in New York.
\<close>

theorem impossible_travel_scores:
  "reachable all_loaded
   \<and> float_gt (model_travel_speed (get_location_from_ip (s_ip (currentSession travel_request)))
                 (h_location new_york_login) (s_timestamp (currentSession travel_request))
                 (h_timestamp new_york_login)) 2000
   \<and> fst (analyze_risk example_env all_loaded travel_request) = Inr travel_response
   \<and> geolocation (scores travel_response) = 50
   \<and> geolocation_predict_risk trained_detector (Inr (Some (3 / 20))) travel_session
         [new_york_login] = 15"
proof -
  have a: "fst (analyze_risk example_env all_loaded travel_request) = Inr travel_response"
    unfolding travel_response_def by (rule all_loaded_accepts) (rule travel_request_valid)+
  have "scores travel_response
          = \<lparr>ip = 50, datetime = 50, userAgent = 50, geolocation = 50, overall = 50\<rparr>"
    using reachable_scores [OF all_loaded_reachable a] .
  then show ?thesis
    using a all_loaded_reachable travel_trained_score travel_speed_example
    by simp
qed

end
